theory Spec2Isabelle
  imports Complex_Main
begin

section \<open>Data model\<close>

text \<open>
  The signal engine (signalEngine.ts), its configuration (config/indicators.ts,
  config/assets.ts) and the session manager (sessionManager.ts) are embedded as HOL
  functions. A JavaScript \<open>number\<close> that carries a price, a weight or a probability is a
  \<^typ>\<open>real\<close>: arithmetic is exact, and \<open>NaN\<close>, the infinities and rounding error of
  IEEE doubles are outside the model. Epoch seconds, milliseconds and timeframes are
  \<^typ>\<open>int\<close>. Strings are ASCII character lists. Calls of the logger are left out.
\<close>

text \<open>
  Modelled from the spec: the types \<open>Candle\<close>, \<open>IndicatorValues\<close>, \<open>CandlestickPattern\<close>,
  \<open>PsychologyAnalysis\<close>, \<open>Vote\<close>, \<open>SessionOptions\<close>, \<open>SignalResult\<close> and \<open>Session\<close> of
  \<open>@shared/schema\<close>, whose declarations the sources lack. Each record below has the
  fields of the specification's data model under the names the code uses for them;
  \<open>IndicatorValues\<close> is cut down to the fields the code reads. A field name that two
  records share carries a prefix.
\<close>

record candle =
  candle_symbol :: string
  candle_timeframe :: int
  candle_open :: real
  candle_high :: real
  candle_low :: real
  candle_close :: real
  candle_timestamp :: int
  tickCount :: nat
  isForming :: bool

record macd_values =
  macd_line :: real
  signal :: real
  histogram :: real

record stochastic_values =
  stoch_k :: real
  stoch_d :: real

record bollinger_values =
  upper :: real
  middle :: real
  lower :: real

datatype trend = up | down

record supertrend_values =
  st_value :: real
  st_direction :: trend

text \<open>The fields of \<open>IndicatorValues\<close> that the vote producers read; each may be absent.\<close>

record indicator_values =
  ema5 :: "real option"
  ema9 :: "real option"
  ema12 :: "real option"
  ema21 :: "real option"
  ema50 :: "real option"
  sma20 :: "real option"
  sma50 :: "real option"
  sma200 :: "real option"
  macd :: "macd_values option"
  rsi14 :: "real option"
  stochastic :: "stochastic_values option"
  bollingerBands :: "bollinger_values option"
  superTrend :: "supertrend_values option"
  psar :: "real option"
  adx :: "real option"
  cci :: "real option"
  williamsR :: "real option"
  hullMA :: "real option"
  meanReversionZ :: "real option"

text \<open>The object literal \<open>{}\<close>: every field absent.\<close>

definition empty_indicators :: indicator_values where
  "empty_indicators =
     \<lparr>ema5 = None, ema9 = None, ema12 = None, ema21 = None, ema50 = None,
      sma20 = None, sma50 = None, sma200 = None, macd = None, rsi14 = None,
      stochastic = None, bollingerBands = None, superTrend = None, psar = None,
      adx = None, cci = None, williamsR = None, hullMA = None, meanReversionZ = None\<rparr>"

text \<open>
  \<open>indicators[key]\<close> for a key naming a numeric field, as \<open>voteFromEMACross\<close> and
  \<open>voteFromSMATrend\<close> read it.
\<close>

definition numberField :: "indicator_values \<Rightarrow> string \<Rightarrow> real option" where
  "numberField ind key =
     (if key = ''ema5'' then ema5 ind
      else if key = ''ema9'' then ema9 ind
      else if key = ''ema12'' then ema12 ind
      else if key = ''ema21'' then ema21 ind
      else if key = ''ema50'' then ema50 ind
      else if key = ''sma20'' then sma20 ind
      else if key = ''sma50'' then sma50 ind
      else if key = ''sma200'' then sma200 ind
      else if key = ''rsi14'' then rsi14 ind
      else if key = ''psar'' then psar ind
      else if key = ''adx'' then adx ind
      else if key = ''cci'' then cci ind
      else if key = ''williamsR'' then williamsR ind
      else if key = ''hullMA'' then hullMA ind
      else if key = ''meanReversionZ'' then meanReversionZ ind
      else None)"

datatype sentiment = bullish | bearish | neutral

record candlestick_pattern =
  name :: string
  pattern_type :: sentiment
  strength :: real
  description :: string

record psychology_analysis =
  bodyRatio :: real
  upperWickRatio :: real
  lowerWickRatio :: real
  isDoji :: bool
  patterns :: "candlestick_pattern list"
  bias :: sentiment
  orderBlockProbability :: real
  fvgDetected :: bool

datatype vote_direction = UP | DOWN | NEUTRAL

text \<open>
  A \<open>reason\<close> is a template string; its parts are kept apart, a formatted number
  \<open>x.toFixed(n)\<close> as the pair of \<open>x\<close> and \<open>n\<close>.
\<close>

datatype reason_part = Lit string | ToFixed real nat

record vote =
  indicator :: string
  vote_direction :: vote_direction
  weight :: real
  reason :: "reason_part list option"

record session_options =
  enabledIndicators :: "string list option"
  customWeights :: "(string \<rightharpoonup> real) option"
  volatilityThreshold :: "real option"

record volatility_assessment =
  isVolatile :: bool
  volatility_reason :: "string option"

text \<open>
  Modelled from the spec: the value that \<open>predictWithFormingCandle\<close> of
  predictionEngine.ts returns, a module the sources lack; the fields are those
  \<open>generateSignal\<close> reads.
\<close>

record prediction =
  estimatedClose :: real
  prediction_indicators :: indicator_values
  prediction_psychology :: psychology_analysis
  volatility :: volatility_assessment

datatype decision = CALL | PUT | NO_TRADE

record signal_result =
  sessionId :: string
  symbol :: string
  timeframe :: int
  timestamp :: int
  candleCloseTime :: int
  direction :: decision
  confidence :: int
  pUp :: real
  pDown :: real
  votes :: "vote list"
  indicators :: indicator_values
  psychology :: psychology_analysis
  volatilityOverride :: bool
  volatilityReason :: "string option"
  closedCandlesCount :: nat
  formingCandle :: "candle option"

section \<open>Configuration (config/indicators.ts, config/assets.ts)\<close>

record indicator_weight =
  iw_name :: string
  iw_weight :: real
  iw_enabled :: bool

definition DEFAULT_INDICATOR_WEIGHTS :: "indicator_weight list" where
  "DEFAULT_INDICATOR_WEIGHTS =
    [\<lparr>iw_name = ''ema_cross_5_21'', iw_weight = 1.2, iw_enabled = True\<rparr>,
     \<lparr>iw_name = ''ema_cross_9_21'', iw_weight = 1.1, iw_enabled = True\<rparr>,
     \<lparr>iw_name = ''ema_cross_12_50'', iw_weight = 1.3, iw_enabled = True\<rparr>,
     \<lparr>iw_name = ''sma_trend_20'', iw_weight = 0.8, iw_enabled = True\<rparr>,
     \<lparr>iw_name = ''sma_trend_50'', iw_weight = 0.9, iw_enabled = True\<rparr>,
     \<lparr>iw_name = ''sma_trend_200'', iw_weight = 1.0, iw_enabled = True\<rparr>,
     \<lparr>iw_name = ''macd_signal'', iw_weight = 1.4, iw_enabled = True\<rparr>,
     \<lparr>iw_name = ''macd_histogram'', iw_weight = 1.2, iw_enabled = True\<rparr>,
     \<lparr>iw_name = ''rsi_overbought'', iw_weight = 1.3, iw_enabled = True\<rparr>,
     \<lparr>iw_name = ''rsi_oversold'', iw_weight = 1.3, iw_enabled = True\<rparr>,
     \<lparr>iw_name = ''rsi_divergence'', iw_weight = 1.5, iw_enabled = True\<rparr>,
     \<lparr>iw_name = ''stochastic_cross'', iw_weight = 1.1, iw_enabled = True\<rparr>,
     \<lparr>iw_name = ''stochastic_extreme'', iw_weight = 1.0, iw_enabled = True\<rparr>,
     \<lparr>iw_name = ''adx_trend_strength'', iw_weight = 0.9, iw_enabled = True\<rparr>,
     \<lparr>iw_name = ''cci_signal'', iw_weight = 0.8, iw_enabled = True\<rparr>,
     \<lparr>iw_name = ''williams_r'', iw_weight = 0.7, iw_enabled = True\<rparr>,
     \<lparr>iw_name = ''bollinger_squeeze'', iw_weight = 1.2, iw_enabled = True\<rparr>,
     \<lparr>iw_name = ''bollinger_breakout'', iw_weight = 1.4, iw_enabled = True\<rparr>,
     \<lparr>iw_name = ''keltner_breakout'', iw_weight = 1.1, iw_enabled = True\<rparr>,
     \<lparr>iw_name = ''hull_ma_trend'', iw_weight = 1.0, iw_enabled = True\<rparr>,
     \<lparr>iw_name = ''supertrend_signal'', iw_weight = 1.5, iw_enabled = True\<rparr>,
     \<lparr>iw_name = ''roc_momentum'', iw_weight = 0.8, iw_enabled = True\<rparr>,
     \<lparr>iw_name = ''momentum_signal'', iw_weight = 0.7, iw_enabled = True\<rparr>,
     \<lparr>iw_name = ''donchian_breakout'', iw_weight = 1.1, iw_enabled = True\<rparr>,
     \<lparr>iw_name = ''psar_signal'', iw_weight = 1.2, iw_enabled = True\<rparr>,
     \<lparr>iw_name = ''ultimate_osc'', iw_weight = 0.9, iw_enabled = True\<rparr>,
     \<lparr>iw_name = ''mean_reversion'', iw_weight = 1.0, iw_enabled = True\<rparr>,
     \<lparr>iw_name = ''lin_reg_slope'', iw_weight = 0.8, iw_enabled = True\<rparr>,
     \<lparr>iw_name = ''fisher_transform'', iw_weight = 0.9, iw_enabled = True\<rparr>,
     \<lparr>iw_name = ''engulfing_pattern'', iw_weight = 1.5, iw_enabled = True\<rparr>,
     \<lparr>iw_name = ''hammer_pattern'', iw_weight = 1.3, iw_enabled = True\<rparr>,
     \<lparr>iw_name = ''shooting_star'', iw_weight = 1.3, iw_enabled = True\<rparr>,
     \<lparr>iw_name = ''doji_pattern'', iw_weight = 0.8, iw_enabled = True\<rparr>,
     \<lparr>iw_name = ''wick_rejection'', iw_weight = 1.1, iw_enabled = True\<rparr>,
     \<lparr>iw_name = ''order_block'', iw_weight = 1.4, iw_enabled = True\<rparr>,
     \<lparr>iw_name = ''fvg_signal'', iw_weight = 1.2, iw_enabled = True\<rparr>]"

record volatility_config =
  atrThreshold :: real
  tickVolatilityThreshold :: real
  tickVolatilityWindow :: nat
  minCandlesForSignal :: nat

definition VOLATILITY_CONFIG :: volatility_config where
  "VOLATILITY_CONFIG =
     \<lparr>atrThreshold = 0.005, tickVolatilityThreshold = 0.003,
      tickVolatilityWindow = 10, minCandlesForSignal = 50\<rparr>"

record signal_config =
  minConfidence :: int
  preCloseSeconds :: int
  sendSignalSeconds :: int
  historyCandles :: nat
  chartCandles :: nat

definition SIGNAL_CONFIG :: signal_config where
  "SIGNAL_CONFIG =
     \<lparr>minConfidence = 60, preCloseSeconds = 4, sendSignalSeconds = 3,
      historyCandles = 300, chartCandles = 100\<rparr>"

text \<open>
  \<open>indicator?.weight || 1.0\<close>: a name missing from the table, or a table weight of zero,
  gives 1.
\<close>

definition getIndicatorWeight :: "string \<Rightarrow> (string \<rightharpoonup> real) option \<Rightarrow> real" where
  "getIndicatorWeight nm cw =
     (case (case cw of None \<Rightarrow> None | Some m \<Rightarrow> m nm) of
        Some w \<Rightarrow> w
      | None \<Rightarrow>
          (case find (\<lambda>w. iw_name w = nm) DEFAULT_INDICATOR_WEIGHTS of
             None \<Rightarrow> 1.0
           | Some i \<Rightarrow> if iw_weight i = 0 then 1.0 else iw_weight i))"

text \<open>\<open>indicator?.enabled ?? true\<close>; an empty whitelist is an array, hence present.\<close>

definition isIndicatorEnabled :: "string \<Rightarrow> string list option \<Rightarrow> bool" where
  "isIndicatorEnabled nm en =
     (case en of
        None \<Rightarrow>
          (case find (\<lambda>w. iw_name w = nm) DEFAULT_INDICATOR_WEIGHTS of
             None \<Rightarrow> True
           | Some i \<Rightarrow> iw_enabled i)
      | Some whitelist \<Rightarrow> nm \<in> set whitelist)"

record timeframe_entry =
  tf_value :: int
  tf_label :: string

definition TIMEFRAMES :: "timeframe_entry list" where
  "TIMEFRAMES =
    [\<lparr>tf_value = 60, tf_label = ''1m''\<rparr>,
     \<lparr>tf_value = 120, tf_label = ''2m''\<rparr>,
     \<lparr>tf_value = 300, tf_label = ''5m''\<rparr>,
     \<lparr>tf_value = 900, tf_label = ''15m''\<rparr>,
     \<lparr>tf_value = 1800, tf_label = ''30m''\<rparr>,
     \<lparr>tf_value = 3600, tf_label = ''1h''\<rparr>]"

section \<open>Vote producers (signalEngine.ts)\<close>

definition voteFromEMACross ::
  "indicator_values \<Rightarrow> string \<Rightarrow> string \<Rightarrow> real \<Rightarrow> string \<Rightarrow> vote option" where
  "voteFromEMACross ind fastKey slowKey lastClose nm =
     (case numberField ind fastKey of
        None \<Rightarrow> None
      | Some fast \<Rightarrow>
          (case numberField ind slowKey of
             None \<Rightarrow> None
           | Some slow \<Rightarrow>
               if fast > slow \<and> lastClose > fast then
                 Some \<lparr>indicator = nm, vote_direction = UP, weight = 1,
                       reason = Some [Lit fastKey, Lit '' > '', Lit slowKey, Lit '', price above'']\<rparr>
               else if fast < slow \<and> lastClose < fast then
                 Some \<lparr>indicator = nm, vote_direction = DOWN, weight = 1,
                       reason = Some [Lit fastKey, Lit '' < '', Lit slowKey, Lit '', price below'']\<rparr>
               else
                 Some \<lparr>indicator = nm, vote_direction = NEUTRAL, weight = 0.3,
                       reason = Some [Lit ''No clear cross'']\<rparr>))"

definition voteFromSMATrend ::
  "indicator_values \<Rightarrow> string \<Rightarrow> real \<Rightarrow> string \<Rightarrow> vote option" where
  "voteFromSMATrend ind smaKey lastClose nm =
     (case numberField ind smaKey of
        None \<Rightarrow> None
      | Some sma \<Rightarrow>
          (let diff = (lastClose - sma) / sma in
           if diff > 0.001 then
             Some \<lparr>indicator = nm, vote_direction = UP, weight = 1,
                   reason = Some [Lit ''Price above '', Lit smaKey]\<rparr>
           else if diff < - 0.001 then
             Some \<lparr>indicator = nm, vote_direction = DOWN, weight = 1,
                   reason = Some [Lit ''Price below '', Lit smaKey]\<rparr>
           else
             Some \<lparr>indicator = nm, vote_direction = NEUTRAL, weight = 0.5,
                   reason = Some [Lit ''Near '', Lit smaKey]\<rparr>))"

definition voteFromMACD :: "indicator_values \<Rightarrow> vote list" where
  "voteFromMACD ind =
     (case macd ind of
        None \<Rightarrow> []
      | Some m \<Rightarrow>
          (let votes1 =
                 (if macd_line m > signal m then
                    [\<lparr>indicator = ''macd_signal'', vote_direction = UP, weight = 1,
                      reason = Some [Lit ''MACD above signal'']\<rparr>]
                  else
                    [\<lparr>indicator = ''macd_signal'', vote_direction = DOWN, weight = 1,
                      reason = Some [Lit ''MACD below signal'']\<rparr>])
           in if histogram m > 0 \<and> histogram m > 0.00001 then
                votes1 @ [\<lparr>indicator = ''macd_histogram'', vote_direction = UP, weight = 1,
                            reason = Some [Lit ''Positive histogram'']\<rparr>]
              else if histogram m < 0 \<and> histogram m < - 0.00001 then
                votes1 @ [\<lparr>indicator = ''macd_histogram'', vote_direction = DOWN, weight = 1,
                            reason = Some [Lit ''Negative histogram'']\<rparr>]
              else
                votes1 @ [\<lparr>indicator = ''macd_histogram'', vote_direction = NEUTRAL,
                            weight = 0.3, reason = None\<rparr>]))"

definition voteFromRSI :: "indicator_values \<Rightarrow> vote list" where
  "voteFromRSI ind =
     (case rsi14 ind of
        None \<Rightarrow> []
      | Some rsi \<Rightarrow>
          if rsi < 30 then
            [\<lparr>indicator = ''rsi_oversold'', vote_direction = UP, weight = 1,
              reason = Some [Lit ''RSI oversold: '', ToFixed rsi 1]\<rparr>]
          else if rsi > 70 then
            [\<lparr>indicator = ''rsi_overbought'', vote_direction = DOWN, weight = 1,
              reason = Some [Lit ''RSI overbought: '', ToFixed rsi 1]\<rparr>]
          else if rsi > 50 then
            [\<lparr>indicator = ''rsi_trend'', vote_direction = UP, weight = 0.5,
              reason = Some [Lit ''RSI bullish: '', ToFixed rsi 1]\<rparr>]
          else
            [\<lparr>indicator = ''rsi_trend'', vote_direction = DOWN, weight = 0.5,
              reason = Some [Lit ''RSI bearish: '', ToFixed rsi 1]\<rparr>])"

definition voteFromStochastic :: "indicator_values \<Rightarrow> vote list" where
  "voteFromStochastic ind =
     (case stochastic ind of
        None \<Rightarrow> []
      | Some stoch \<Rightarrow>
          (let votes1 =
                 (if stoch_k stoch > stoch_d stoch \<and> stoch_k stoch < 80 then
                    [\<lparr>indicator = ''stochastic_cross'', vote_direction = UP, weight = 1,
                      reason = Some [Lit ''Bullish stochastic cross'']\<rparr>]
                  else if stoch_k stoch < stoch_d stoch \<and> stoch_k stoch > 20 then
                    [\<lparr>indicator = ''stochastic_cross'', vote_direction = DOWN, weight = 1,
                      reason = Some [Lit ''Bearish stochastic cross'']\<rparr>]
                  else [])
           in if stoch_k stoch < 20 then
                votes1 @ [\<lparr>indicator = ''stochastic_extreme'', vote_direction = UP, weight = 1,
                            reason = Some [Lit ''Stochastic oversold'']\<rparr>]
              else if stoch_k stoch > 80 then
                votes1 @ [\<lparr>indicator = ''stochastic_extreme'', vote_direction = DOWN, weight = 1,
                            reason = Some [Lit ''Stochastic overbought'']\<rparr>]
              else votes1))"

definition voteFromBollinger :: "indicator_values \<Rightarrow> real \<Rightarrow> vote list" where
  "voteFromBollinger ind lastClose =
     (case bollingerBands ind of
        None \<Rightarrow> []
      | Some bb \<Rightarrow>
          (let bandwidth = (upper bb - lower bb) / middle bb;
               votes1 =
                 (if bandwidth < 0.02 then
                    [\<lparr>indicator = ''bollinger_squeeze'', vote_direction = NEUTRAL, weight = 0.8,
                      reason = Some [Lit ''Bollinger squeeze - expect breakout'']\<rparr>]
                  else [])
           in if lastClose > upper bb then
                votes1 @ [\<lparr>indicator = ''bollinger_breakout'', vote_direction = UP, weight = 1,
                            reason = Some [Lit ''Price broke above upper band'']\<rparr>]
              else if lastClose < lower bb then
                votes1 @ [\<lparr>indicator = ''bollinger_breakout'', vote_direction = DOWN, weight = 1,
                            reason = Some [Lit ''Price broke below lower band'']\<rparr>]
              else votes1))"

definition voteFromSuperTrend :: "indicator_values \<Rightarrow> vote option" where
  "voteFromSuperTrend ind =
     (case superTrend ind of
        None \<Rightarrow> None
      | Some st \<Rightarrow>
          if st_direction st = up then
            Some \<lparr>indicator = ''supertrend_signal'', vote_direction = UP, weight = 1,
                  reason = Some [Lit ''SuperTrend bullish'']\<rparr>
          else
            Some \<lparr>indicator = ''supertrend_signal'', vote_direction = DOWN, weight = 1,
                  reason = Some [Lit ''SuperTrend bearish'']\<rparr>)"

definition voteFromPSAR :: "indicator_values \<Rightarrow> real \<Rightarrow> vote option" where
  "voteFromPSAR ind lastClose =
     (case psar ind of
        None \<Rightarrow> None
      | Some p \<Rightarrow>
          if lastClose > p then
            Some \<lparr>indicator = ''psar_signal'', vote_direction = UP, weight = 1,
                  reason = Some [Lit ''Price above PSAR'']\<rparr>
          else
            Some \<lparr>indicator = ''psar_signal'', vote_direction = DOWN, weight = 1,
                  reason = Some [Lit ''Price below PSAR'']\<rparr>)"

definition voteFromADX :: "indicator_values \<Rightarrow> vote option" where
  "voteFromADX ind =
     (case adx ind of
        None \<Rightarrow> None
      | Some a \<Rightarrow>
          if a < 25 then
            Some \<lparr>indicator = ''adx_trend_strength'', vote_direction = NEUTRAL, weight = 0.5,
                  reason = Some [Lit ''Weak trend ADX: '', ToFixed a 1]\<rparr>
          else
            Some \<lparr>indicator = ''adx_trend_strength'', vote_direction = NEUTRAL, weight = 1,
                  reason = Some [Lit ''Strong trend ADX: '', ToFixed a 1]\<rparr>)"

definition voteFromCCI :: "indicator_values \<Rightarrow> vote option" where
  "voteFromCCI ind =
     (case cci ind of
        None \<Rightarrow> None
      | Some c \<Rightarrow>
          if c > 100 then
            Some \<lparr>indicator = ''cci_signal'', vote_direction = UP, weight = 1,
                  reason = Some [Lit ''CCI bullish: '', ToFixed c 1]\<rparr>
          else if c < - 100 then
            Some \<lparr>indicator = ''cci_signal'', vote_direction = DOWN, weight = 1,
                  reason = Some [Lit ''CCI bearish: '', ToFixed c 1]\<rparr>
          else
            Some \<lparr>indicator = ''cci_signal'', vote_direction = NEUTRAL, weight = 0.3,
                  reason = None\<rparr>)"

definition voteFromWilliamsR :: "indicator_values \<Rightarrow> vote option" where
  "voteFromWilliamsR ind =
     (case williamsR ind of
        None \<Rightarrow> None
      | Some wr \<Rightarrow>
          if wr < - 80 then
            Some \<lparr>indicator = ''williams_r'', vote_direction = UP, weight = 1,
                  reason = Some [Lit ''Williams %R oversold'']\<rparr>
          else if wr > - 20 then
            Some \<lparr>indicator = ''williams_r'', vote_direction = DOWN, weight = 1,
                  reason = Some [Lit ''Williams %R overbought'']\<rparr>
          else
            Some \<lparr>indicator = ''williams_r'', vote_direction = NEUTRAL, weight = 0.3,
                  reason = None\<rparr>)"

definition voteFromHullMA :: "indicator_values \<Rightarrow> real \<Rightarrow> vote option" where
  "voteFromHullMA ind lastClose =
     (case hullMA ind of
        None \<Rightarrow> None
      | Some hullValue \<Rightarrow>
          if lastClose > hullValue then
            Some \<lparr>indicator = ''hull_ma_trend'', vote_direction = UP, weight = 1,
                  reason = Some [Lit ''Price above Hull MA'']\<rparr>
          else
            Some \<lparr>indicator = ''hull_ma_trend'', vote_direction = DOWN, weight = 1,
                  reason = Some [Lit ''Price below Hull MA'']\<rparr>)"

definition voteFromMeanReversion :: "indicator_values \<Rightarrow> vote option" where
  "voteFromMeanReversion ind =
     (case meanReversionZ ind of
        None \<Rightarrow> None
      | Some z \<Rightarrow>
          if z < - 2 then
            Some \<lparr>indicator = ''mean_reversion'', vote_direction = UP, weight = 1,
                  reason = Some [Lit ''Strong mean reversion signal (z='', ToFixed z 2, Lit '')'']\<rparr>
          else if z > 2 then
            Some \<lparr>indicator = ''mean_reversion'', vote_direction = DOWN, weight = 1,
                  reason = Some [Lit ''Strong mean reversion signal (z='', ToFixed z 2, Lit '')'']\<rparr>
          else None)"

subsection \<open>String operations used on pattern names\<close>

text \<open>\<open>String.prototype.toLowerCase\<close> on ASCII letters.\<close>

definition toLowerChar :: "char \<Rightarrow> char" where
  "toLowerChar c =
     (let n = (of_char c :: nat) in if 65 \<le> n \<and> n \<le> 90 then char_of (n + 32) else c)"

definition toLowerCase :: "string \<Rightarrow> string" where
  "toLowerCase s = map toLowerChar s"

text \<open>The ASCII characters that the regular expression class \<open>\s\<close> matches.\<close>

definition isWhitespace :: "char \<Rightarrow> bool" where
  "isWhitespace c = ((of_char c :: nat) \<in> {9, 10, 11, 12, 13, 32})"

text \<open>\<open>s.replace(/\s+/g, "_")\<close>: every maximal run of whitespace becomes one underscore.\<close>

function replaceWhitespace :: "string \<Rightarrow> string" where
  "replaceWhitespace [] = []"
| "replaceWhitespace (c # cs) =
     (if isWhitespace c then CHR ''_'' # replaceWhitespace (dropWhile isWhitespace cs)
      else c # replaceWhitespace cs)"
  by pat_completeness auto
termination
  by (relation "measure length") (auto simp: length_dropWhile_le less_Suc_eq_le)

text \<open>\<open>s.includes(sub)\<close>: \<open>sub\<close> occurs in \<open>s\<close> as a contiguous substring.\<close>

fun str_includes :: "string \<Rightarrow> string \<Rightarrow> bool" where
  "str_includes [] sub = (sub = [])"
| "str_includes (c # cs) sub = (take (length sub) (c # cs) = sub \<or> str_includes cs sub)"

subsection \<open>Psychology-derived votes\<close>

text \<open>The body of the loop over \<open>psychology.patterns\<close>: the vote built for one pattern.\<close>

definition patternVote :: "candlestick_pattern \<Rightarrow> vote" where
  "patternVote pattern =
     (if pattern_type pattern = bullish then
        (let v = \<lparr>indicator = replaceWhitespace (toLowerCase (name pattern)),
                   vote_direction = UP, weight = strength pattern,
                   reason = Some [Lit (description pattern)]\<rparr>;
             v = (if str_includes (name pattern) ''Engulfing''
                  then v\<lparr>indicator := ''engulfing_pattern''\<rparr> else v);
             v = (if str_includes (name pattern) ''Hammer''
                  then v\<lparr>indicator := ''hammer_pattern''\<rparr> else v)
         in v)
      else if pattern_type pattern = bearish then
        (let v = \<lparr>indicator = replaceWhitespace (toLowerCase (name pattern)),
                   vote_direction = DOWN, weight = strength pattern,
                   reason = Some [Lit (description pattern)]\<rparr>;
             v = (if str_includes (name pattern) ''Engulfing''
                  then v\<lparr>indicator := ''engulfing_pattern''\<rparr> else v);
             v = (if str_includes (name pattern) ''Shooting''
                  then v\<lparr>indicator := ''shooting_star''\<rparr> else v)
         in v)
      else
        \<lparr>indicator = ''doji_pattern'', vote_direction = NEUTRAL,
         weight = strength pattern * 0.5, reason = Some [Lit (description pattern)]\<rparr>)"

text \<open>The loop itself: each pattern's vote is pushed onto \<open>votes\<close>.\<close>

fun pushPatternVotes :: "vote list \<Rightarrow> candlestick_pattern list \<Rightarrow> vote list" where
  "pushPatternVotes vts [] = vts"
| "pushPatternVotes vts (pattern # rest) = pushPatternVotes (vts @ [patternVote pattern]) rest"

definition voteFromPsychology :: "psychology_analysis \<Rightarrow> vote list" where
  "voteFromPsychology psy =
     (let vts = pushPatternVotes [] (patterns psy);
          vts =
            (if orderBlockProbability psy > 0.6 then
               vts @
               [\<lparr>indicator = ''order_block'',
                 vote_direction =
                   (if bias psy = bullish then UP else if bias psy = bearish then DOWN else NEUTRAL),
                 weight = orderBlockProbability psy,
                 reason = Some [Lit ''Order block detected'']\<rparr>]
             else vts);
          vts =
            (if fvgDetected psy then
               vts @
               [\<lparr>indicator = ''fvg_signal'',
                 vote_direction = (if bias psy = bullish then UP else DOWN),
                 weight = 0.8, reason = Some [Lit ''Fair Value Gap detected'']\<rparr>]
             else vts);
          vts =
            (if upperWickRatio psy > 0.6 then
               vts @
               [\<lparr>indicator = ''wick_rejection'', vote_direction = DOWN,
                 weight = upperWickRatio psy, reason = Some [Lit ''Upper wick rejection'']\<rparr>]
             else vts);
          vts =
            (if lowerWickRatio psy > 0.6 then
               vts @
               [\<lparr>indicator = ''wick_rejection'', vote_direction = UP,
                 weight = lowerWickRatio psy, reason = Some [Lit ''Lower wick rejection'']\<rparr>]
             else vts)
      in vts)"

section \<open>Collecting, scoring and deciding (signalEngine.ts)\<close>

text \<open>
  \<open>addVote\<close> and \<open>addVotes\<close> are closures over the array \<open>votes\<close> and the two option
  fields; here they take the array and return it extended.
\<close>

definition addVote ::
  "string list option \<Rightarrow> (string \<rightharpoonup> real) option \<Rightarrow> vote list \<Rightarrow> vote option \<Rightarrow> string \<Rightarrow> vote list"
  where
  "addVote en cw vts v nm =
     (case v of
        None \<Rightarrow> vts
      | Some vt \<Rightarrow>
          if isIndicatorEnabled nm en
          then vts @ [vt\<lparr>weight := weight vt * getIndicatorWeight nm cw\<rparr>]
          else vts)"

fun addVotes ::
  "string list option \<Rightarrow> (string \<rightharpoonup> real) option \<Rightarrow> vote list \<Rightarrow> vote list \<Rightarrow> string \<Rightarrow> vote list"
  where
  "addVotes en cw vts [] prefix = vts"
| "addVotes en cw vts (vt # voteList) prefix =
     (let nm = (if prefix \<noteq> [] then prefix else indicator vt) in
      addVotes en cw
        (if isIndicatorEnabled nm en
         then vts @ [vt\<lparr>weight := weight vt * getIndicatorWeight nm cw\<rparr>]
         else vts)
        voteList prefix)"

definition collectVotes ::
  "indicator_values \<Rightarrow> psychology_analysis \<Rightarrow> real \<Rightarrow> session_options option \<Rightarrow> vote list" where
  "collectVotes ind psy lastClose opts =
     (let en = (case opts of None \<Rightarrow> None | Some o1 \<Rightarrow> enabledIndicators o1);
          cw = (case opts of None \<Rightarrow> None | Some o1 \<Rightarrow> customWeights o1);
          vts = [];
          vts = addVote en cw vts
                    (voteFromEMACross ind ''ema5'' ''ema21'' lastClose ''ema_cross_5_21'')
                    ''ema_cross_5_21'';
          vts = addVote en cw vts
                    (voteFromEMACross ind ''ema9'' ''ema21'' lastClose ''ema_cross_9_21'')
                    ''ema_cross_9_21'';
          vts = addVote en cw vts
                    (voteFromEMACross ind ''ema12'' ''ema50'' lastClose ''ema_cross_12_50'')
                    ''ema_cross_12_50'';
          vts = addVote en cw vts
                    (voteFromSMATrend ind ''sma20'' lastClose ''sma_trend_20'') ''sma_trend_20'';
          vts = addVote en cw vts
                    (voteFromSMATrend ind ''sma50'' lastClose ''sma_trend_50'') ''sma_trend_50'';
          vts = addVote en cw vts
                    (voteFromSMATrend ind ''sma200'' lastClose ''sma_trend_200'') ''sma_trend_200'';
          vts = addVotes en cw vts (voteFromMACD ind) [];
          vts = addVotes en cw vts (voteFromRSI ind) [];
          vts = addVotes en cw vts (voteFromStochastic ind) [];
          vts = addVotes en cw vts (voteFromBollinger ind lastClose) [];
          vts = addVote en cw vts (voteFromSuperTrend ind) ''supertrend_signal'';
          vts = addVote en cw vts (voteFromPSAR ind lastClose) ''psar_signal'';
          vts = addVote en cw vts (voteFromADX ind) ''adx_trend_strength'';
          vts = addVote en cw vts (voteFromCCI ind) ''cci_signal'';
          vts = addVote en cw vts (voteFromWilliamsR ind) ''williams_r'';
          vts = addVote en cw vts (voteFromHullMA ind lastClose) ''hull_ma_trend'';
          vts = addVote en cw vts (voteFromMeanReversion ind) ''mean_reversion'';
          vts = addVotes en cw vts (voteFromPsychology psy) []
      in vts)"

record scores =
  finalUp :: real
  finalDown :: real
  scores_pUp :: real

text \<open>The loop of \<open>calculateScores\<close>, on the two running sums.\<close>

fun sumVotes :: "real \<times> real \<Rightarrow> vote list \<Rightarrow> real \<times> real" where
  "sumVotes (u, d) [] = (u, d)"
| "sumVotes (u, d) (vt # rest) =
     (if vote_direction vt = UP then sumVotes (u + weight vt, d) rest
      else if vote_direction vt = DOWN then sumVotes (u, d + weight vt) rest
      else sumVotes (u, d) rest)"

definition calculateScores :: "vote list \<Rightarrow> scores" where
  "calculateScores vs =
     (let (u, d) = sumVotes (0, 0) vs;
          total = u + d + 1 / 10 ^ 9
      in \<lparr>finalUp = u, finalDown = d, scores_pUp = u / total\<rparr>)"

definition determineDirection :: "real \<Rightarrow> int \<Rightarrow> decision" where
  "determineDirection p conf =
     (if conf < minConfidence SIGNAL_CONFIG then NO_TRADE
      else if p > 0.5 then CALL else PUT)"

text \<open>\<open>Math.round\<close>: the nearest integer, a half rounded up.\<close>

definition Math_round :: "real \<Rightarrow> int" where
  "Math_round x = \<lfloor>x + 1 / 2\<rfloor>"

text \<open>
  \<open>generateSignal\<close> reads the clock (\<open>Date.now()\<close>, in milliseconds) and calls
  \<open>predictWithFormingCandle\<close> of predictionEngine.ts; both are parameters here, ahead
  of the function's own seven.
\<close>

definition generateSignal ::
  "(candle list \<Rightarrow> candle option \<Rightarrow> prediction) \<Rightarrow> int \<Rightarrow>
   string \<Rightarrow> string \<Rightarrow> int \<Rightarrow> candle list \<Rightarrow> candle option \<Rightarrow> int \<Rightarrow>
   session_options option \<Rightarrow> signal_result" where
  "generateSignal predictWithFormingCandle dateNow sid smb tf closedCandles forming closeTime opts =
     (let ts = dateNow div 1000 in
      if length closedCandles < minCandlesForSignal VOLATILITY_CONFIG then
        \<lparr>sessionId = sid, symbol = smb, timeframe = tf, timestamp = ts,
         candleCloseTime = closeTime, direction = NO_TRADE, confidence = 0,
         pUp = 0.5, pDown = 0.5, votes = [], indicators = empty_indicators,
         psychology =
           \<lparr>bodyRatio = 0, upperWickRatio = 0, lowerWickRatio = 0, isDoji = False,
            patterns = [], bias = neutral, orderBlockProbability = 0, fvgDetected = False\<rparr>,
         volatilityOverride = False, volatilityReason = None,
         closedCandlesCount = length closedCandles, formingCandle = forming\<rparr>
      else
        (let pr = predictWithFormingCandle closedCandles forming in
         if isVolatile (volatility pr) then
           \<lparr>sessionId = sid, symbol = smb, timeframe = tf, timestamp = ts,
            candleCloseTime = closeTime, direction = NO_TRADE, confidence = 0,
            pUp = 0.5, pDown = 0.5, votes = [], indicators = prediction_indicators pr,
            psychology = prediction_psychology pr,
            volatilityOverride = True, volatilityReason = volatility_reason (volatility pr),
            closedCandlesCount = length closedCandles, formingCandle = forming\<rparr>
         else
           (let lastClose = estimatedClose pr;
                vs = collectVotes (prediction_indicators pr) (prediction_psychology pr)
                       lastClose opts;
                p = scores_pUp (calculateScores vs);
                conf = Math_round (max p (1 - p) * 100);
                dir = determineDirection p conf
            in \<lparr>sessionId = sid, symbol = smb, timeframe = tf, timestamp = ts,
                candleCloseTime = closeTime, direction = dir, confidence = conf,
                pUp = p, pDown = 1 - p, votes = vs, indicators = prediction_indicators pr,
                psychology = prediction_psychology pr,
                volatilityOverride = False, volatilityReason = None,
                closedCandlesCount = length closedCandles, formingCandle = forming\<rparr>)))"

section \<open>Time helpers (utils/time.ts) and the asset catalogue (config/assets.ts)\<close>

definition getCandleBoundary :: "int \<Rightarrow> int \<Rightarrow> int" where
  "getCandleBoundary ts timeframeSec = (ts div timeframeSec) * timeframeSec"

definition getCandleCloseTime :: "int \<Rightarrow> int \<Rightarrow> int" where
  "getCandleCloseTime ts timeframeSec = getCandleBoundary ts timeframeSec + timeframeSec"

datatype asset_category = forex | synthetic | crypto

record asset =
  asset_id :: string
  asset_name :: string
  category :: asset_category

definition SUPPORTED_ASSETS :: "asset list" where
  "SUPPORTED_ASSETS =
    [\<lparr>asset_id = ''frxEURUSD'', asset_name = ''EUR / USD'', category = forex\<rparr>,
     \<lparr>asset_id = ''frxGBPUSD'', asset_name = ''GBP / USD'', category = forex\<rparr>,
     \<lparr>asset_id = ''frxUSDJPY'', asset_name = ''USD / JPY'', category = forex\<rparr>,
     \<lparr>asset_id = ''frxAUDUSD'', asset_name = ''AUD / USD'', category = forex\<rparr>,
     \<lparr>asset_id = ''frxUSDINR'', asset_name = ''USD / INR'', category = forex\<rparr>,
     \<lparr>asset_id = ''frxUSDCAD'', asset_name = ''USD / CAD'', category = forex\<rparr>,
     \<lparr>asset_id = ''frxEURGBP'', asset_name = ''EUR / GBP'', category = forex\<rparr>,
     \<lparr>asset_id = ''frxEURJPY'', asset_name = ''EUR / JPY'', category = forex\<rparr>,
     \<lparr>asset_id = ''R_10'', asset_name = ''Volatility 10 Index'', category = synthetic\<rparr>,
     \<lparr>asset_id = ''R_25'', asset_name = ''Volatility 25 Index'', category = synthetic\<rparr>,
     \<lparr>asset_id = ''R_50'', asset_name = ''Volatility 50 Index'', category = synthetic\<rparr>,
     \<lparr>asset_id = ''R_75'', asset_name = ''Volatility 75 Index'', category = synthetic\<rparr>,
     \<lparr>asset_id = ''R_100'', asset_name = ''Volatility 100 Index'', category = synthetic\<rparr>,
     \<lparr>asset_id = ''1HZ10V'', asset_name = ''Volatility 10 (1s) Index'', category = synthetic\<rparr>,
     \<lparr>asset_id = ''1HZ25V'', asset_name = ''Volatility 25 (1s) Index'', category = synthetic\<rparr>,
     \<lparr>asset_id = ''1HZ50V'', asset_name = ''Volatility 50 (1s) Index'', category = synthetic\<rparr>,
     \<lparr>asset_id = ''1HZ75V'', asset_name = ''Volatility 75 (1s) Index'', category = synthetic\<rparr>,
     \<lparr>asset_id = ''1HZ100V'', asset_name = ''Volatility 100 (1s) Index'', category = synthetic\<rparr>,
     \<lparr>asset_id = ''cryBTCUSD'', asset_name = ''Bitcoin / USD'', category = crypto\<rparr>,
     \<lparr>asset_id = ''cryETHUSD'', asset_name = ''Ethereum / USD'', category = crypto\<rparr>]"

definition getAssetById :: "string \<Rightarrow> asset option" where
  "getAssetById i = find (\<lambda>a. asset_id a = i) SUPPORTED_ASSETS"

section \<open>Session manager (sessionManager.ts)\<close>

text \<open>
  The manager's state is its two maps, the pending timeouts of the event loop and the
  events it has emitted. Everything it reads from outside is a \<open>world\<close>: the clock, the
  two getters of the candle aggregator, the outcome of the feed's calls and the
  prediction engine (candleAggregator.ts, derivFeed.ts and predictionEngine.ts are not
  among the sources, so what they return is an input of each step). One call of a
  method, or one firing of a timeout, is one step taken in one world: the clock does not
  advance inside a step, and no other event runs between the \<open>await\<close>s of an \<open>async\<close>
  method. A feed call that rejects is \<open>Inl\<close>/\<open>Some\<close> of its error. Calls that only change
  the aggregator or the feed (\<open>initialize\<close>, \<open>cleanup\<close>, \<open>on\<close>, \<open>off\<close>) leave the manager's
  state as it is and are left out.

  A timeout is a handle mapped to its callback; the delay is not part of the model, a
  pending timeout may fire at any later step. \<open>setTimeout\<close> takes the next unused handle,
  \<open>clearTimeout\<close> removes the handle from the pending ones.
\<close>

datatype session_status = active | stopped

datatype timer_callback =
    Reschedule
  | PreCloseAt candle int

text \<open>
  \<open>Reschedule\<close> is \<open>() => this.scheduleNextPreClose(sessionId)\<close>; \<open>PreCloseAt formingCandle
  candleCloseTime\<close> is the callback given to \<open>scheduleAt\<close>, with the two values it captures.
\<close>

record active_session =
  session_id :: string
  chatId :: int
  session_symbol :: string
  session_timeframe :: int
  status :: session_status
  startedAt :: int
  lastSignalAt :: "int option"
  options :: "session_options option"
  signalTimer :: "nat option"
  preCloseTimer :: "nat option"
  lastSignalCandleTimestamp :: "int option"

datatype event =
    SessionStarted active_session
  | PreCloseSignal active_session signal_result
  | SessionStopped active_session
  | FeedDisconnected

datatype error = SessionExists string | FeedFailure string

record world =
  dateNow :: int
  getClosedCandles :: "string \<Rightarrow> int \<Rightarrow> candle list"
  getFormingCandle :: "string \<Rightarrow> int \<Rightarrow> candle option"
  fetchCandleHistory :: "string \<Rightarrow> int \<Rightarrow> nat \<Rightarrow> error + candle list"
  subscribeTicks :: "string \<Rightarrow> string \<Rightarrow> error option"
  unsubscribeTicks :: "string \<Rightarrow> string \<Rightarrow> error option"
  predictWithFormingCandle :: "candle list \<Rightarrow> candle option \<Rightarrow> prediction"

text \<open>
  \<open>preCloseStarts\<close> is a history variable, not a field of the class: for every
  \<open>preCloseSignal\<close> emitted, the session id and the forming-candle start on which the
  caller deduplicated, oldest first.
\<close>

record manager =
  sessions :: "string \<rightharpoonup> active_session"
  tickHandlers :: "string \<rightharpoonup> string"
  timers :: "nat \<rightharpoonup> string \<times> timer_callback"
  nextTimer :: nat
  events :: "event list"
  preCloseStarts :: "(string \<times> int) list"

definition newManager :: manager where
  "newManager =
     \<lparr>sessions = Map.empty, tickHandlers = Map.empty, timers = Map.empty,
      nextTimer = 0, events = [], preCloseStarts = []\<rparr>"

definition nowEpoch :: "world \<Rightarrow> int" where
  "nowEpoch w = dateNow w div 1000"

definition clearTimeout :: "manager \<Rightarrow> nat option \<Rightarrow> manager" where
  "clearTimeout m h =
     (case h of None \<Rightarrow> m | Some n \<Rightarrow> m\<lparr>timers := (timers m)(n := None)\<rparr>)"

text \<open>\<open>session.preCloseTimer = setTimeout(callback, ...)\<close> for the session \<open>sid\<close>.\<close>

definition setPreCloseTimer :: "manager \<Rightarrow> string \<Rightarrow> timer_callback \<Rightarrow> manager" where
  "setPreCloseTimer m sid cb =
     (case sessions m sid of
        None \<Rightarrow> m
      | Some s \<Rightarrow>
          m\<lparr>timers := (timers m)(nextTimer m \<mapsto> (sid, cb)),
            nextTimer := Suc (nextTimer m),
            sessions := (sessions m)(sid \<mapsto> s\<lparr>preCloseTimer := Some (nextTimer m)\<rparr>)\<rparr>)"

text \<open>
  \<open>emitPreCloseSignal(sessionId, candleCloseTime)\<close>; the argument \<open>start\<close> is not in the
  source and is only written to the history variable.
\<close>

definition emitPreCloseSignal :: "world \<Rightarrow> int \<Rightarrow> manager \<Rightarrow> string \<Rightarrow> int \<Rightarrow> manager" where
  "emitPreCloseSignal w start m sid closeTime =
     (case sessions m sid of
        None \<Rightarrow> m
      | Some s \<Rightarrow>
          if status s \<noteq> active then m
          else
            (let closed = getClosedCandles w (session_symbol s) (session_timeframe s);
                 forming = getFormingCandle w (session_symbol s) (session_timeframe s);
                 sig = generateSignal (predictWithFormingCandle w) (dateNow w) sid
                         (session_symbol s) (session_timeframe s) closed forming closeTime
                         (options s);
                 s1 = s\<lparr>lastSignalAt := Some (timestamp sig)\<rparr>
             in m\<lparr>sessions := (sessions m)(sid \<mapsto> s1),
                  events := events m @ [PreCloseSignal s1 sig],
                  preCloseStarts := preCloseStarts m @ [(sid, start)]\<rparr>))"

text \<open>
  The block both branches of \<open>scheduleNextPreClose\<close> run when a pre-close firing is due:
  emit unless \<open>lastSignalCandleTimestamp\<close> already is the forming candle's start, then
  record that start.
\<close>

definition firePreClose :: "world \<Rightarrow> manager \<Rightarrow> string \<Rightarrow> candle \<Rightarrow> int \<Rightarrow> manager" where
  "firePreClose w m sid forming closeTime =
     (case sessions m sid of
        None \<Rightarrow> m
      | Some s \<Rightarrow>
          if lastSignalCandleTimestamp s \<noteq> Some (candle_timestamp forming) then
            (let m1 = emitPreCloseSignal w (candle_timestamp forming) m sid closeTime in
             case sessions m1 sid of
               None \<Rightarrow> m1
             | Some s1 \<Rightarrow>
                 m1\<lparr>sessions := (sessions m1)
                      (sid \<mapsto> s1\<lparr>lastSignalCandleTimestamp := Some (candle_timestamp forming)\<rparr>)\<rparr>)
          else m)"

definition scheduleNextPreClose :: "world \<Rightarrow> manager \<Rightarrow> string \<Rightarrow> manager" where
  "scheduleNextPreClose w m sid =
     (case sessions m sid of
        None \<Rightarrow> m
      | Some s \<Rightarrow>
          if status s \<noteq> active then m
          else
            (let m1 = clearTimeout m (preCloseTimer s) in
             case getFormingCandle w (session_symbol s) (session_timeframe s) of
               None \<Rightarrow> setPreCloseTimer m1 sid Reschedule
             | Some forming \<Rightarrow>
                 (let closeTime = getCandleCloseTime (candle_timestamp forming) (session_timeframe s);
                      preCloseTime = closeTime - preCloseSeconds SIGNAL_CONFIG
                  in if preCloseTime \<le> nowEpoch w then
                       setPreCloseTimer (firePreClose w m1 sid forming closeTime) sid Reschedule
                     else setPreCloseTimer m1 sid (PreCloseAt forming closeTime))))"

text \<open>The event loop runs the callback of the pending timeout \<open>h\<close>.\<close>

definition fireTimer :: "world \<Rightarrow> manager \<Rightarrow> nat \<Rightarrow> manager" where
  "fireTimer w m h =
     (case timers m h of
        None \<Rightarrow> m
      | Some (sid, cb) \<Rightarrow>
          (let m1 = m\<lparr>timers := (timers m)(h := None)\<rparr> in
           case cb of
             Reschedule \<Rightarrow> scheduleNextPreClose w m1 sid
           | PreCloseAt forming closeTime \<Rightarrow>
               scheduleNextPreClose w (firePreClose w m1 sid forming closeTime) sid))"

definition startSession ::
  "world \<Rightarrow> manager \<Rightarrow> string \<Rightarrow> int \<Rightarrow> string \<Rightarrow> int \<Rightarrow> session_options option \<Rightarrow>
   (error + active_session) \<times> manager" where
  "startSession w m sid chat smb tf opts =
     (if sessions m sid \<noteq> None then (Inl (SessionExists sid), m)
      else
        (case fetchCandleHistory w smb tf (historyCandles SIGNAL_CONFIG) of
           Inl e \<Rightarrow> (Inl e, m)
         | Inr history \<Rightarrow>
             (let session =
                    \<lparr>session_id = sid, chatId = chat, session_symbol = smb,
                     session_timeframe = tf, status = active, startedAt = nowEpoch w,
                     lastSignalAt = None, options = opts, signalTimer = None,
                     preCloseTimer = None, lastSignalCandleTimestamp = None\<rparr>;
                  m1 = m\<lparr>sessions := (sessions m)(sid \<mapsto> session),
                         tickHandlers := (tickHandlers m)(sid \<mapsto> smb)\<rparr>
              in case subscribeTicks w smb sid of
                   Some e \<Rightarrow> (Inl e, m1)
                 | None \<Rightarrow>
                     (let m2 = scheduleNextPreClose w m1 sid;
                          session2 = (case sessions m2 sid of None \<Rightarrow> session | Some s \<Rightarrow> s)
                      in (Inr session2, m2\<lparr>events := events m2 @ [SessionStarted session2]\<rparr>)))))"

definition stopSession :: "world \<Rightarrow> manager \<Rightarrow> string \<Rightarrow> error option \<times> manager" where
  "stopSession w m sid =
     (case sessions m sid of
        None \<Rightarrow> (None, m)
      | Some s \<Rightarrow>
          (let s1 = s\<lparr>status := stopped\<rparr>;
               m1 = m\<lparr>sessions := (sessions m)(sid \<mapsto> s1)\<rparr>;
               m2 = clearTimeout m1 (preCloseTimer s1);
               m3 = clearTimeout m2 (signalTimer s1);
               m4 = m3\<lparr>tickHandlers := (tickHandlers m3)(sid := None)\<rparr>
           in case unsubscribeTicks w (session_symbol s1) sid of
                Some e \<Rightarrow> (Some e, m4)
              | None \<Rightarrow> (None, m4\<lparr>events := events m4 @ [SessionStopped s1]\<rparr>)))"

definition restartSession :: "world \<Rightarrow> manager \<Rightarrow> string \<Rightarrow> manager" where
  "restartSession w m sid =
     (case sessions m sid of
        None \<Rightarrow> m
      | Some s \<Rightarrow>
          (case fetchCandleHistory w (session_symbol s) (session_timeframe s)
                  (historyCandles SIGNAL_CONFIG) of
             Inl e \<Rightarrow> m
           | Inr history \<Rightarrow>
               (case subscribeTicks w (session_symbol s) sid of
                  Some e \<Rightarrow> m
                | None \<Rightarrow> scheduleNextPreClose w m sid)))"

definition getSession :: "manager \<Rightarrow> string \<Rightarrow> active_session option" where
  "getSession m sid = sessions m sid"

subsection \<open>The route \<open>POST /api/startSession\<close> (routes.ts)\<close>

text \<open>
  The request body after JSON parsing, each field possibly missing. \<open>!x\<close> holds of a
  missing field, of the empty string and of the number zero.
\<close>

record start_body =
  body_session_id :: "string option"
  body_chat_id :: "int option"
  body_asset :: "string option"
  body_timeframe :: "int option"
  body_options :: "session_options option"

datatype response = Json_session active_session | Json_error nat string

definition postStartSession :: "world \<Rightarrow> manager \<Rightarrow> start_body \<Rightarrow> response \<times> manager" where
  "postStartSession w m body =
     (case (body_session_id body, body_chat_id body, body_asset body, body_timeframe body) of
        (Some sid, Some chat, Some a, Some tf) \<Rightarrow>
          if sid = [] \<or> chat = 0 \<or> a = [] \<or> tf = 0 then
            (Json_error 400 ''Missing required fields'', m)
          else
            (case getAssetById a of
               None \<Rightarrow> (Json_error 400 ''Invalid asset'', m)
             | Some assetInfo \<Rightarrow>
                 (case startSession w m sid chat a tf (body_options body) of
                    (Inl e, m1) \<Rightarrow> (Json_error 500 ''Failed to start session'', m1)
                  | (Inr session, m1) \<Rightarrow> (Json_session session, m1)))
      | _ \<Rightarrow> (Json_error 400 ''Missing required fields'', m))"

subsection \<open>Runs of the manager\<close>





section \<open>The claims' own notions\<close>

text \<open>
  The votes the catalogue of producers yields, in the order \<open>collectVotes\<close> calls them,
  before any filtering or weighting: what the specification calls the collected votes'
  producers' output.
\<close>

definition maybe :: "'a option \<Rightarrow> 'a list" where
  "maybe x = (case x of None \<Rightarrow> [] | Some v \<Rightarrow> [v])"

definition producedVotes :: "indicator_values \<Rightarrow> psychology_analysis \<Rightarrow> real \<Rightarrow> vote list" where
  "producedVotes ind psy lastClose =
     maybe (voteFromEMACross ind ''ema5'' ''ema21'' lastClose ''ema_cross_5_21'') @
     maybe (voteFromEMACross ind ''ema9'' ''ema21'' lastClose ''ema_cross_9_21'') @
     maybe (voteFromEMACross ind ''ema12'' ''ema50'' lastClose ''ema_cross_12_50'') @
     maybe (voteFromSMATrend ind ''sma20'' lastClose ''sma_trend_20'') @
     maybe (voteFromSMATrend ind ''sma50'' lastClose ''sma_trend_50'') @
     maybe (voteFromSMATrend ind ''sma200'' lastClose ''sma_trend_200'') @
     voteFromMACD ind @ voteFromRSI ind @ voteFromStochastic ind @
     voteFromBollinger ind lastClose @
     maybe (voteFromSuperTrend ind) @ maybe (voteFromPSAR ind lastClose) @
     maybe (voteFromADX ind) @ maybe (voteFromCCI ind) @ maybe (voteFromWilliamsR ind) @
     maybe (voteFromHullMA ind lastClose) @ maybe (voteFromMeanReversion ind) @
     voteFromPsychology psy"

text \<open>A vote with its weight multiplied by the weight of its indicator name.\<close>

definition weighted :: "(string \<rightharpoonup> real) option \<Rightarrow> vote \<Rightarrow> vote" where
  "weighted cw v = v\<lparr>weight := weight v * getIndicatorWeight (indicator v) cw\<rparr>"

definition kept :: "string list option \<Rightarrow> vote \<Rightarrow> bool" where
  "kept en v = isIndicatorEnabled (indicator v) en"


text \<open>
  The scored path of \<open>generateSignal\<close>: enough closed candles and no volatility
  override.
\<close>

definition scoredPath ::
  "(candle list \<Rightarrow> candle option \<Rightarrow> prediction) \<Rightarrow> candle list \<Rightarrow> candle option \<Rightarrow> bool" where
  "scoredPath predict cs fc =
     (minCandlesForSignal VOLATILITY_CONFIG \<le> length cs \<and> \<not> isVolatile (volatility (predict cs fc)))"



subsection \<open>The scheduler's invariant\<close>

text \<open>
  \<open>F smb tf x\<close> stands for ``no forming candle of \<open>smb\<close> and \<open>tf\<close> shown from now on starts
  before \<open>x\<close>''; \<open>futureOK steps\<close> is this bound for the worlds of the remaining steps. The
  invariant \<open>sched_inv\<close> says: the recorded starts are distinct; each is at most the
  \<open>lastSignalCandleTimestamp\<close> of its session; that timestamp is a bound in the sense of
  \<open>F\<close>; and every pending timeout is the \<open>preCloseTimer\<close> of its session, the forming
  candle it captured being no older than \<open>lastSignalCandleTimestamp\<close> and a bound as
  well. \<open>worldOK F F' w\<close> relates the bound before a step taken in world \<open>w\<close> to the bound
  after it.
\<close>

definition noPending :: "manager \<Rightarrow> string \<Rightarrow> bool" where
  "noPending m sid = (\<forall>h cb. timers m h \<noteq> Some (sid, cb))"

definition capturedOK ::
  "(string \<Rightarrow> int \<Rightarrow> int \<Rightarrow> bool) \<Rightarrow> active_session \<Rightarrow> timer_callback \<Rightarrow> bool" where
  "capturedOK F s cb =
     (case cb of
        Reschedule \<Rightarrow> True
      | PreCloseAt fc ct \<Rightarrow>
          (\<forall>l. lastSignalCandleTimestamp s = Some l \<longrightarrow> l \<le> candle_timestamp fc) \<and>
          F (session_symbol s) (session_timeframe s) (candle_timestamp fc))"

definition sched_inv :: "(string \<Rightarrow> int \<Rightarrow> int \<Rightarrow> bool) \<Rightarrow> manager \<Rightarrow> bool" where
  "sched_inv F m =
     (distinct (preCloseStarts m) \<and>
      (\<forall>sid k. (sid, k) \<in> set (preCloseStarts m) \<longrightarrow>
         (\<exists>s l. sessions m sid = Some s \<and> lastSignalCandleTimestamp s = Some l \<and> k \<le> l)) \<and>
      (\<forall>sid s l. sessions m sid = Some s \<and> lastSignalCandleTimestamp s = Some l \<longrightarrow>
         F (session_symbol s) (session_timeframe s) l) \<and>
      (\<forall>h sid cb. timers m h = Some (sid, cb) \<longrightarrow>
         (\<exists>s. sessions m sid = Some s \<and> preCloseTimer s = Some h \<and> capturedOK F s cb)))"




text \<open>
  Two session records are the same session when they differ at most in the three
  fields the scheduler writes (\<open>lastSignalAt\<close>, \<open>preCloseTimer\<close>,
  \<open>lastSignalCandleTimestamp\<close>); a manager evolves from another when it holds the same
  sessions in this sense.
\<close>

definition sameSession :: "active_session \<Rightarrow> active_session \<Rightarrow> bool" where
  "sameSession s s' =
     (session_id s' = session_id s \<and> chatId s' = chatId s \<and>
      session_symbol s' = session_symbol s \<and> session_timeframe s' = session_timeframe s \<and>
      status s' = status s \<and> startedAt s' = startedAt s \<and> options s' = options s \<and>
      signalTimer s' = signalTimer s)"

definition sessionsEvolve :: "manager \<Rightarrow> manager \<Rightarrow> bool" where
  "sessionsEvolve m m' =
     (\<forall>x. case sessions m x of
            None \<Rightarrow> sessions m' x = None
          | Some s \<Rightarrow> (\<exists>s'. sessions m' x = Some s' \<and> sameSession s s'))"

section \<open>Sample inputs\<close>

definition sample_candle :: candle where
  "sample_candle =
     \<lparr>candle_symbol = ''R_10'', candle_timeframe = 60, candle_open = 100, candle_high = 101,
      candle_low = 99, candle_close = 100, candle_timestamp = 600, tickCount = 1,
      isForming = False\<rparr>"

definition quiet_psychology :: psychology_analysis where
  "quiet_psychology =
     \<lparr>bodyRatio = 0, upperWickRatio = 0, lowerWickRatio = 0, isDoji = False,
      patterns = [], bias = neutral, orderBlockProbability = 0, fvgDetected = False\<rparr>"

definition volatile_prediction :: prediction where
  "volatile_prediction =
     \<lparr>estimatedClose = 100, prediction_indicators = empty_indicators,
      prediction_psychology = quiet_psychology,
      volatility = \<lparr>isVolatile = True, volatility_reason = Some ''ATR too high''\<rparr>\<rparr>"

text \<open>A calm market in which the MACD line is above its signal line.\<close>

definition rising_prediction :: prediction where
  "rising_prediction =
     \<lparr>estimatedClose = 103,
      prediction_indicators =
        empty_indicators\<lparr>macd := Some \<lparr>macd_line = 2, signal = 1, histogram = 1\<rparr>\<rparr>,
      prediction_psychology = quiet_psychology,
      volatility = \<lparr>isVolatile = False, volatility_reason = None\<rparr>\<rparr>"

definition macd_only :: session_options where
  "macd_only =
     \<lparr>enabledIndicators = Some [''macd_signal''],
      customWeights = Some [''macd_signal'' \<mapsto> 2], volatilityThreshold = None\<rparr>"

text \<open>A doji of strength 0.8 as the only detected pattern.\<close>

definition doji_psychology :: psychology_analysis where
  "doji_psychology =
     quiet_psychology
       \<lparr>isDoji := True,
        patterns := [\<lparr>name = ''Doji'', pattern_type = neutral, strength = 0.8,
                      description = ''Indecision''\<rparr>]\<rparr>"

text \<open>
  A world whose feed answers every call, whose aggregator shows no closed candle and a
  forming candle started at 600, at 10:58 after the epoch (two seconds before that
  candle's close at 660).
\<close>

definition sample_world :: world where
  "sample_world =
     \<lparr>dateNow = 658000,
      getClosedCandles = (\<lambda>smb tf. []),
      getFormingCandle = (\<lambda>smb tf. Some sample_candle),
      fetchCandleHistory = (\<lambda>smb tf n. Inr []),
      subscribeTicks = (\<lambda>smb sid. None),
      unsubscribeTicks = (\<lambda>smb sid. None),
      predictWithFormingCandle = (\<lambda>cs fc. volatile_prediction)\<rparr>"

text \<open>A hammer and a doji, with an order block, a fair value gap and a long lower wick.\<close>

definition hammer_psychology :: psychology_analysis where
  "hammer_psychology =
     \<lparr>bodyRatio = 0.2, upperWickRatio = 0.1, lowerWickRatio = 0.7, isDoji = False,
      patterns =
        [\<lparr>name = ''Hammer'', pattern_type = bullish, strength = 0.7,
          description = ''Long lower wick''\<rparr>,
         \<lparr>name = ''Doji'', pattern_type = neutral, strength = 0.8,
          description = ''Indecision''\<rparr>],
      bias = bullish, orderBlockProbability = 0.7, fvgDetected = True\<rparr>"

text \<open>The signals that \<open>generateSignal\<close> returns on three sample inputs.\<close>
definition volatile_signal :: signal_result where
  "volatile_signal =
     generateSignal (\<lambda>cs fc. volatile_prediction) 0 ''s1'' ''R_10'' 60
       (replicate 50 sample_candle) None 660 None"

definition short_history_signal :: signal_result where
  "short_history_signal =
     generateSignal (\<lambda>cs fc. rising_prediction) 0 ''s1'' ''R_10'' 60
       (replicate 10 sample_candle) None 660 None"

definition rising_signal :: "int \<Rightarrow> session_options option \<Rightarrow> signal_result" where
  "rising_signal clock opts =
     generateSignal (\<lambda>cs fc. rising_prediction) clock ''s1'' ''R_10'' 60
       (replicate 50 sample_candle) None 660 opts"

text \<open>
  A request for a timeframe of three minutes, which \<open>TIMEFRAMES\<close> lacks; the manager
  after starting session \<open>s1\<close> in the sample world; and that manager after stopping the
  session again.
\<close>

definition odd_body :: start_body where
  "odd_body =
     \<lparr>body_session_id = Some ''s1'', body_chat_id = Some 1, body_asset = Some ''R_10'',
      body_timeframe = Some 180, body_options = None\<rparr>"

definition started_manager :: manager where
  "started_manager = snd (startSession sample_world newManager ''s1'' 1 ''R_10'' 60 None)"

definition stopped_manager :: manager where
  "stopped_manager = snd (stopSession sample_world started_manager ''s1'')"




section \<open>Properties\<close>

subsection \<open>Helper lemmas\<close>

lemmas producer_defs =
  voteFromEMACross_def voteFromSMATrend_def numberField_def voteFromMACD_def voteFromRSI_def
  voteFromStochastic_def voteFromBollinger_def voteFromSuperTrend_def voteFromPSAR_def
  voteFromADX_def voteFromCCI_def voteFromWilliamsR_def voteFromHullMA_def
  voteFromMeanReversion_def voteFromPsychology_def

lemmas collect_defs =
  collectVotes_def addVote_def isIndicatorEnabled_def getIndicatorWeight_def
  DEFAULT_INDICATOR_WEIGHTS_def


lemma rising_votes_macd_only:
  "collectVotes (prediction_indicators rising_prediction)
     (prediction_psychology rising_prediction) 103 (Some macd_only) =
   [\<lparr>indicator = ''macd_signal'', vote_direction = UP, weight = 2,
     reason = Some [Lit ''MACD above signal'']\<rparr>]"
  by (simp add: rising_prediction_def empty_indicators_def quiet_psychology_def Let_def
      producer_defs collect_defs macd_only_def)

lemma rising_scored: "scoredPath (\<lambda>cs fc. rising_prediction) (replicate 50 sample_candle) None"
  by (simp add: scoredPath_def VOLATILITY_CONFIG_def rising_prediction_def)

lemma rising_estimate: "estimatedClose rising_prediction = 103"
  by (simp add: rising_prediction_def)




lemma addVotes_append:
  "addVotes en cw acc vs [] = acc @ map (weighted cw) (filter (kept en) vs)"
  by (induction vs arbitrary: acc) (simp_all add: weighted_def kept_def)

lemma addVote_append:
  assumes "\<And>v. vo = Some v \<Longrightarrow> indicator v = nm"
  shows "addVote en cw acc vo nm = acc @ map (weighted cw) (filter (kept en) (maybe vo))"
  using assms by (cases vo) (simp_all add: addVote_def maybe_def weighted_def kept_def)

lemma voteFromEMACross_indicator:
  "voteFromEMACross ind fk sk lc nm = Some v \<Longrightarrow> indicator v = nm"
  by (auto simp: voteFromEMACross_def split: option.splits if_splits)

lemma voteFromSMATrend_indicator:
  "voteFromSMATrend ind k lc nm = Some v \<Longrightarrow> indicator v = nm"
  by (auto simp: voteFromSMATrend_def Let_def split: option.splits if_splits)

lemma voteFromSuperTrend_indicator:
  "voteFromSuperTrend ind = Some v \<Longrightarrow> indicator v = ''supertrend_signal''"
  by (auto simp: voteFromSuperTrend_def split: option.splits if_splits)

lemma voteFromPSAR_indicator:
  "voteFromPSAR ind lc = Some v \<Longrightarrow> indicator v = ''psar_signal''"
  by (auto simp: voteFromPSAR_def split: option.splits if_splits)

lemma voteFromADX_indicator:
  "voteFromADX ind = Some v \<Longrightarrow> indicator v = ''adx_trend_strength''"
  by (auto simp: voteFromADX_def split: option.splits if_splits)

lemma voteFromCCI_indicator:
  "voteFromCCI ind = Some v \<Longrightarrow> indicator v = ''cci_signal''"
  by (auto simp: voteFromCCI_def split: option.splits if_splits)

lemma voteFromWilliamsR_indicator:
  "voteFromWilliamsR ind = Some v \<Longrightarrow> indicator v = ''williams_r''"
  by (auto simp: voteFromWilliamsR_def split: option.splits if_splits)

lemma voteFromHullMA_indicator:
  "voteFromHullMA ind lc = Some v \<Longrightarrow> indicator v = ''hull_ma_trend''"
  by (auto simp: voteFromHullMA_def split: option.splits if_splits)

lemma voteFromMeanReversion_indicator:
  "voteFromMeanReversion ind = Some v \<Longrightarrow> indicator v = ''mean_reversion''"
  by (auto simp: voteFromMeanReversion_def split: option.splits if_splits)

lemmas producer_indicator =
  voteFromEMACross_indicator voteFromSMATrend_indicator voteFromSuperTrend_indicator
  voteFromPSAR_indicator voteFromADX_indicator voteFromCCI_indicator
  voteFromWilliamsR_indicator voteFromHullMA_indicator voteFromMeanReversion_indicator

lemma collectVotes_eq:
  "collectVotes ind psy lc opts =
     map (weighted (case opts of None \<Rightarrow> None | Some o1 \<Rightarrow> customWeights o1))
       (filter (kept (case opts of None \<Rightarrow> None | Some o1 \<Rightarrow> enabledIndicators o1))
          (producedVotes ind psy lc))"
  unfolding collectVotes_def producedVotes_def Let_def
  by (simp add: addVotes_append addVote_append producer_indicator)

lemma default_weight_table:
  "getIndicatorWeight nm None =
     (case find (\<lambda>w. iw_name w = nm) DEFAULT_INDICATOR_WEIGHTS of
        None \<Rightarrow> 1 | Some i \<Rightarrow> iw_weight i)"
  by (simp add: getIndicatorWeight_def DEFAULT_INDICATOR_WEIGHTS_def)

lemma default_weight_examples:
  "getIndicatorWeight ''ema_cross_5_21'' None = 1.2"
  "getIndicatorWeight ''macd_signal'' None = 1.4"
  "getIndicatorWeight ''supertrend_signal'' None = 1.5"
  by (simp_all add: getIndicatorWeight_def DEFAULT_INDICATOR_WEIGHTS_def)

lemma custom_weight:
  "getIndicatorWeight nm (Some m) = (case m nm of Some x \<Rightarrow> x | None \<Rightarrow> getIndicatorWeight nm None)"
  by (simp add: getIndicatorWeight_def split: option.splits)

lemma pushPatternVotes_append: "pushPatternVotes acc ps = acc @ map patternVote ps"
  by (induction ps arbitrary: acc) simp_all

lemma patternVote_direction:
  "vote_direction (patternVote p) =
     (case pattern_type p of bullish \<Rightarrow> UP | bearish \<Rightarrow> DOWN | neutral \<Rightarrow> NEUTRAL)"
  by (cases "pattern_type p") (simp_all add: patternVote_def Let_def)

lemma patternVote_weight:
  "weight (patternVote p) =
     (if pattern_type p = neutral then strength p * 0.5 else strength p)"
  by (cases "pattern_type p") (simp_all add: patternVote_def Let_def)

lemma voteFromPsychology_parts:
  "voteFromPsychology psy =
     map patternVote (patterns psy) @
     (if orderBlockProbability psy > 0.6 then
        [\<lparr>indicator = ''order_block'',
          vote_direction =
            (if bias psy = bullish then UP else if bias psy = bearish then DOWN else NEUTRAL),
          weight = orderBlockProbability psy, reason = Some [Lit ''Order block detected'']\<rparr>]
      else []) @
     (if fvgDetected psy then
        [\<lparr>indicator = ''fvg_signal'',
          vote_direction = (if bias psy = bullish then UP else DOWN),
          weight = 0.8, reason = Some [Lit ''Fair Value Gap detected'']\<rparr>]
      else []) @
     (if upperWickRatio psy > 0.6 then
        [\<lparr>indicator = ''wick_rejection'', vote_direction = DOWN,
          weight = upperWickRatio psy, reason = Some [Lit ''Upper wick rejection'']\<rparr>]
      else []) @
     (if lowerWickRatio psy > 0.6 then
        [\<lparr>indicator = ''wick_rejection'', vote_direction = UP,
          weight = lowerWickRatio psy, reason = Some [Lit ''Lower wick rejection'']\<rparr>]
      else [])"
  by (simp add: voteFromPsychology_def pushPatternVotes_append Let_def)

lemma hammer_votes:
  "voteFromPsychology hammer_psychology =
     [\<lparr>indicator = ''hammer_pattern'', vote_direction = UP, weight = 0.7,
       reason = Some [Lit ''Long lower wick'']\<rparr>,
      \<lparr>indicator = ''doji_pattern'', vote_direction = NEUTRAL, weight = 0.4,
       reason = Some [Lit ''Indecision'']\<rparr>,
      \<lparr>indicator = ''order_block'', vote_direction = UP, weight = 0.7,
       reason = Some [Lit ''Order block detected'']\<rparr>,
      \<lparr>indicator = ''fvg_signal'', vote_direction = UP, weight = 0.8,
       reason = Some [Lit ''Fair Value Gap detected'']\<rparr>,
      \<lparr>indicator = ''wick_rejection'', vote_direction = UP, weight = 0.7,
       reason = Some [Lit ''Lower wick rejection'']\<rparr>]"
  by (simp add: voteFromPsychology_parts hammer_psychology_def patternVote_def Let_def)

lemma sameSession_refl: "sameSession s s"
  by (simp add: sameSession_def)

lemma sameSession_trans: "sameSession s t \<Longrightarrow> sameSession t u \<Longrightarrow> sameSession s u"
  by (simp add: sameSession_def)

lemma sessionsEvolve_refl: "sessionsEvolve m m"
  by (auto simp: sessionsEvolve_def sameSession_refl split: option.splits)

lemma sessionsEvolve_trans:
  "sessionsEvolve m1 m2 \<Longrightarrow> sessionsEvolve m2 m3 \<Longrightarrow> sessionsEvolve m1 m3"
  unfolding sessionsEvolve_def
  apply (intro allI)
  subgoal for x
    apply (erule_tac x = x in allE)+
    apply (auto split: option.splits dest: sameSession_trans)
    done
  done

lemma sessionsEvolve_clearTimeout: "sessionsEvolve m (clearTimeout m h)"
  by (auto simp: sessionsEvolve_def clearTimeout_def sameSession_refl split: option.splits)

lemma sessionsEvolve_setPreCloseTimer: "sessionsEvolve m (setPreCloseTimer m sid cb)"
  by (auto simp: sessionsEvolve_def setPreCloseTimer_def sameSession_def split: option.splits)

lemma sessionsEvolve_emit: "sessionsEvolve m (emitPreCloseSignal w k m sid ct)"
  by (auto simp: sessionsEvolve_def emitPreCloseSignal_def sameSession_def Let_def
      split: option.splits)


lemma sessionsEvolve_firePreClose: "sessionsEvolve m (firePreClose w m sid fc ct)"
proof (cases "sessions m sid")
  case None
  then show ?thesis by (simp add: firePreClose_def sessionsEvolve_refl)
next
  case (Some s)
  show ?thesis
  proof (cases "lastSignalCandleTimestamp s \<noteq> Some (candle_timestamp fc)")
    case False
    with Some show ?thesis by (simp add: firePreClose_def sessionsEvolve_refl)
  next
    case True
    let ?m1 = "emitPreCloseSignal w (candle_timestamp fc) m sid ct"
    have e: "sessionsEvolve m ?m1" by (rule sessionsEvolve_emit)
    have "sessionsEvolve ?m1 (firePreClose w m sid fc ct)"
      using Some True
      by (auto simp: firePreClose_def sessionsEvolve_def sameSession_def Let_def
          split: option.splits)
    with e show ?thesis by (rule sessionsEvolve_trans)
  qed
qed

lemma sessionsEvolve_schedule: "sessionsEvolve m (scheduleNextPreClose w m sid)"
  unfolding scheduleNextPreClose_def Let_def
  by (auto split: option.splits
      intro: sessionsEvolve_refl
        sessionsEvolve_trans [OF sessionsEvolve_clearTimeout sessionsEvolve_setPreCloseTimer]
        sessionsEvolve_trans [OF sessionsEvolve_clearTimeout
          sessionsEvolve_trans [OF sessionsEvolve_firePreClose sessionsEvolve_setPreCloseTimer]])

lemma sessionsEvolve_dropTimer: "sessionsEvolve m (m\<lparr>timers := t\<rparr>)"
  by (auto simp: sessionsEvolve_def sameSession_refl split: option.splits)

lemma sessionsEvolve_fireTimer: "sessionsEvolve m (fireTimer w m h)"
  unfolding fireTimer_def Let_def
  by (auto split: option.splits timer_callback.splits
      intro: sessionsEvolve_refl
        sessionsEvolve_trans [OF sessionsEvolve_dropTimer sessionsEvolve_schedule]
        sessionsEvolve_trans [OF sessionsEvolve_dropTimer
          sessionsEvolve_trans [OF sessionsEvolve_firePreClose sessionsEvolve_schedule]])

lemma sessionsEvolve_restart: "sessionsEvolve m (restartSession w m sid)"
  unfolding restartSession_def
  by (auto split: option.splits sum.splits intro: sessionsEvolve_refl sessionsEvolve_schedule)

lemma sessionsEvolveD:
  "sessionsEvolve m m' \<Longrightarrow> sessions m x = Some s \<Longrightarrow>
     \<exists>s'. sessions m' x = Some s' \<and> sameSession s s'"
  by (auto simp: sessionsEvolve_def split: option.splits dest: spec [of _ x])

lemma startSession_rejects_existing:
  "sessions m sid \<noteq> None \<Longrightarrow>
     startSession w m sid chat smb tf opts = (Inl (SessionExists sid), m)"
  by (simp add: startSession_def)

lemma startSession_creates:
  assumes "sessions m sid = None"
    and "fetchCandleHistory w smb tf (historyCandles SIGNAL_CONFIG) = Inr h"
    and "subscribeTicks w smb sid = None"
  shows "\<exists>s. fst (startSession w m sid chat smb tf opts) = Inr s \<and>
             sessions (snd (startSession w m sid chat smb tf opts)) sid = Some s \<and>
             session_timeframe s = tf \<and> session_symbol s = smb \<and> status s = active"
proof -
  let ?session =
    "\<lparr>session_id = sid, chatId = chat, session_symbol = smb, session_timeframe = tf,
      status = active, startedAt = nowEpoch w, lastSignalAt = None, options = opts,
      signalTimer = None, preCloseTimer = None, lastSignalCandleTimestamp = None\<rparr>"
  let ?m1 = "m\<lparr>sessions := (sessions m)(sid \<mapsto> ?session),
                 tickHandlers := (tickHandlers m)(sid \<mapsto> smb)\<rparr>"
  let ?m2 = "scheduleNextPreClose w ?m1 sid"
  have "sessions ?m1 sid = Some ?session" by simp
  with sessionsEvolve_schedule [of ?m1 w sid]
  obtain s where s: "sessions ?m2 sid = Some s" "sameSession ?session s"
    by (blast dest: sessionsEvolveD)
  have "fst (startSession w m sid chat smb tf opts) = Inr s"
    "sessions (snd (startSession w m sid chat smb tf opts)) sid = Some s"
    using assms s(1) by (simp_all add: startSession_def Let_def)
  moreover have "session_timeframe s = tf \<and> session_symbol s = smb \<and> status s = active"
    using s(2) by (simp add: sameSession_def)
  ultimately show ?thesis by blast
qed


lemma stopSession_effect:
  assumes "sessions m sid = Some s"
  shows "sessions (snd (stopSession w m sid)) = (sessions m)(sid \<mapsto> s\<lparr>status := stopped\<rparr>)"
    and "tickHandlers (snd (stopSession w m sid)) sid = None"
    and "preCloseTimer s = Some h \<Longrightarrow> timers (snd (stopSession w m sid)) h = None"
    and "unsubscribeTicks w (session_symbol s) sid = None \<Longrightarrow> fst (stopSession w m sid) = None"
  using assms
  by (auto simp: stopSession_def Let_def clearTimeout_def split: option.splits)

lemma sample_start:
  "\<exists>s. sessions started_manager ''s1'' = Some s \<and> session_symbol s = ''R_10''"
  using startSession_creates [of newManager "''s1''" sample_world "''R_10''" 60 "[]" 1 None]
  by (auto simp: started_manager_def newManager_def sample_world_def)





lemma noPending_dropTimer:
  "noPending m sid \<Longrightarrow> noPending (m\<lparr>timers := (timers m)(h := None)\<rparr>) sid"
  by (auto simp: noPending_def)












lemma capturedOK_preCloseTimer [simp]:
  "capturedOK F (s\<lparr>preCloseTimer := x\<rparr>) cb = capturedOK F s cb"
  by (simp add: capturedOK_def split: timer_callback.splits)






lemma sessions_clearTimeout [simp]: "sessions (clearTimeout m h) = sessions m"
  by (simp add: clearTimeout_def split: option.splits)



lemma sched_inv_events [simp]: "sched_inv F (m\<lparr>events := e\<rparr>) = sched_inv F m"
  by (simp add: sched_inv_def)

lemma sched_inv_tickHandlers [simp]: "sched_inv F (m\<lparr>tickHandlers := e\<rparr>) = sched_inv F m"
  by (simp add: sched_inv_def)




lemma capturedOK_status [simp]:
  "capturedOK F (s\<lparr>status := x\<rparr>) cb = capturedOK F s cb"
  by (simp add: capturedOK_def split: timer_callback.splits)
















lemma generateSignal_sessionId [simp]:
  "sessionId (generateSignal P t sid smb tf cs fc ct opts) = sid"
  by (simp add: generateSignal_def Let_def)


















subsection \<open>Signal engine\<close>

text \<open>
  C1. Whatever the inputs, a result of \<open>generateSignal\<close> with \<open>volatilityOverride = true\<close>
  has \<open>direction = NO_TRADE\<close> and \<open>confidence = 0\<close>.
\<close>

theorem volatility_override_is_no_trade:
  fixes P clock sid smb tf cs fc ct opts
  defines "r \<equiv> generateSignal P clock sid smb tf cs fc ct opts"
  assumes "volatilityOverride r"
  shows "direction r = NO_TRADE \<and> confidence r = 0"
  using assms by (simp add: generateSignal_def Let_def split: if_splits)

theorem volatility_override_is_no_trade_witness:
  "volatilityOverride volatile_signal \<and> direction volatile_signal = NO_TRADE \<and>
   confidence volatile_signal = 0"
proof -
  have h: "volatilityOverride volatile_signal"
    by (simp add: volatile_signal_def generateSignal_def VOLATILITY_CONFIG_def
        volatile_prediction_def)
  from volatility_override_is_no_trade [OF h [unfolded volatile_signal_def]] h
  show ?thesis by (simp add: volatile_signal_def)
qed

text \<open>
  C2. With fewer than 50 closed candles, whatever the forming candle and the options,
  the result is \<open>NO_TRADE\<close> with confidence 0, no votes, the empty indicator record and
  no volatility override.
\<close>

theorem insufficient_candles_no_trade:
  fixes P clock sid smb tf cs fc ct opts
  defines "r \<equiv> generateSignal P clock sid smb tf cs fc ct opts"
  assumes "length cs < 50"
  shows "direction r = NO_TRADE \<and> confidence r = 0 \<and> votes r = [] \<and>
         indicators r = empty_indicators \<and> volatilityOverride r = False"
  using assms by (simp add: generateSignal_def VOLATILITY_CONFIG_def)

theorem insufficient_candles_no_trade_witness:
  "length (replicate 10 sample_candle) < 50 \<and>
   direction short_history_signal = NO_TRADE \<and> confidence short_history_signal = 0 \<and>
   votes short_history_signal = [] \<and> indicators short_history_signal = empty_indicators \<and>
   volatilityOverride short_history_signal = False"
proof -
  have h: "length (replicate 10 sample_candle) < 50" by simp
  from insufficient_candles_no_trade [OF h] h
  show ?thesis unfolding short_history_signal_def by blast
qed






text \<open>
  C6. On the scored path the votes of the result are the producers' votes, kept when
  their indicator name is enabled and with their weight multiplied by the weight of
  that name. With a whitelist a name is enabled exactly when it is in the list; without
  one every name is enabled. The weight of a name is the entry of \<open>customWeights\<close> when
  present, else the entry of the built-in table (1 for a name the table lacks), for
  example 1.2 for \<open>ema_cross_5_21\<close>, 1.4 for \<open>macd_signal\<close> and 1.5 for
  \<open>supertrend_signal\<close>.
\<close>

theorem votes_filtered_and_weighted:
  fixes P clock sid smb tf cs fc ct opts
  defines "r \<equiv> generateSignal P clock sid smb tf cs fc ct opts"
    and "en \<equiv> (case opts of None \<Rightarrow> None | Some o1 \<Rightarrow> enabledIndicators o1)"
    and "cw \<equiv> (case opts of None \<Rightarrow> None | Some o1 \<Rightarrow> customWeights o1)"
  shows "(scoredPath P cs fc \<longrightarrow>
            votes r =
              map (weighted cw)
                (filter (kept en)
                   (producedVotes (prediction_indicators (P cs fc))
                      (prediction_psychology (P cs fc)) (estimatedClose (P cs fc))))) \<and>
         (kept (Some whitelist) v \<longleftrightarrow> indicator v \<in> set whitelist) \<and>
         kept None v \<and>
         weight (weighted cw v) =
           weight v *
             (case (case cw of None \<Rightarrow> None | Some m \<Rightarrow> m (indicator v)) of
                Some x \<Rightarrow> x
              | None \<Rightarrow>
                  (case find (\<lambda>w. iw_name w = indicator v) DEFAULT_INDICATOR_WEIGHTS of
                     None \<Rightarrow> 1 | Some i \<Rightarrow> iw_weight i)) \<and>
         indicator (weighted cw v) = indicator v \<and>
         vote_direction (weighted cw v) = vote_direction v \<and>
         getIndicatorWeight ''ema_cross_5_21'' None = 1.2 \<and>
         getIndicatorWeight ''macd_signal'' None = 1.4 \<and>
         getIndicatorWeight ''supertrend_signal'' None = 1.5"
proof -
  have "scoredPath P cs fc \<longrightarrow>
          votes r =
            map (weighted cw)
              (filter (kept en)
                 (producedVotes (prediction_indicators (P cs fc))
                    (prediction_psychology (P cs fc)) (estimatedClose (P cs fc))))"
    by (simp add: r_def en_def cw_def generateSignal_def scoredPath_def Let_def collectVotes_eq)
  moreover have "kept (Some whitelist) v \<longleftrightarrow> indicator v \<in> set whitelist"
    by (simp add: kept_def isIndicatorEnabled_def)
  moreover have "kept None v"
    by (simp add: kept_def isIndicatorEnabled_def DEFAULT_INDICATOR_WEIGHTS_def)
  moreover have "weight (weighted cw v) =
           weight v *
             (case (case cw of None \<Rightarrow> None | Some m \<Rightarrow> m (indicator v)) of
                Some x \<Rightarrow> x
              | None \<Rightarrow>
                  (case find (\<lambda>w. iw_name w = indicator v) DEFAULT_INDICATOR_WEIGHTS of
                     None \<Rightarrow> 1 | Some i \<Rightarrow> iw_weight i))"
    by (cases cw) (simp_all add: weighted_def custom_weight default_weight_table split: option.splits)
  moreover have "indicator (weighted cw v) = indicator v"
    "vote_direction (weighted cw v) = vote_direction v"
    by (simp_all add: weighted_def)
  ultimately show ?thesis using default_weight_examples by blast
qed

theorem votes_filtered_and_weighted_witness:
  "scoredPath (\<lambda>cs fc. rising_prediction) (replicate 50 sample_candle) None \<and>
   votes (rising_signal 0 (Some macd_only)) =
     map (weighted (Some [''macd_signal'' \<mapsto> 2]))
       (filter (kept (Some [''macd_signal'']))
          (producedVotes (prediction_indicators rising_prediction)
             (prediction_psychology rising_prediction) 103)) \<and>
   votes (rising_signal 0 (Some macd_only)) =
     [\<lparr>indicator = ''macd_signal'', vote_direction = UP, weight = 2,
       reason = Some [Lit ''MACD above signal'']\<rparr>]"
proof -
  have v: "votes (rising_signal 0 (Some macd_only)) =
     [\<lparr>indicator = ''macd_signal'', vote_direction = UP, weight = 2,
       reason = Some [Lit ''MACD above signal'']\<rparr>]"
    using rising_scored
    by (simp add: rising_signal_def generateSignal_def scoredPath_def Let_def
        rising_estimate rising_votes_macd_only)
  from votes_filtered_and_weighted [of "\<lambda>cs fc. rising_prediction"
      "replicate 50 sample_candle" None 0 "''s1''" "''R_10''" 60 660 "Some macd_only"]
    rising_scored v
  show ?thesis
    by (simp add: rising_signal_def macd_only_def rising_estimate)
qed

text \<open>
  C7, as stated, fails on a neutral pattern: the vote of a doji of strength 0.8 has
  weight 0.4.
\<close>

theorem psychology_weight_counterexample:
  "map weight (voteFromPsychology doji_psychology) \<noteq> map strength (patterns doji_psychology)"
  by (simp add: voteFromPsychology_parts doji_psychology_def quiet_psychology_def
      patternVote_weight)

text \<open>
  C7, amended. \<open>voteFromPsychology\<close> first emits one vote per detected pattern, in order:
  UP for a bullish, DOWN for a bearish and NEUTRAL for a neutral pattern, with the
  pattern's strength as weight, halved for a neutral pattern. After these it emits one
  \<open>order_block\<close> vote exactly when \<open>orderBlockProbability > 0.6\<close>, one \<open>fvg_signal\<close> vote
  exactly when \<open>fvgDetected\<close>, one \<open>wick_rejection\<close> vote DOWN exactly when
  \<open>upperWickRatio > 0.6\<close> and one \<open>wick_rejection\<close> vote UP exactly when
  \<open>lowerWickRatio > 0.6\<close>, and nothing else.
\<close>

theorem psychology_votes:
  fixes psy
  defines "vs \<equiv> voteFromPsychology psy"
    and "n \<equiv> length (patterns psy)"
  shows "map vote_direction (take n vs) =
           map (\<lambda>p. case pattern_type p of bullish \<Rightarrow> UP | bearish \<Rightarrow> DOWN | neutral \<Rightarrow> NEUTRAL)
             (patterns psy) \<and>
         map weight (take n vs) =
           map (\<lambda>p. if pattern_type p = neutral then strength p * 0.5 else strength p)
             (patterns psy) \<and>
         length (filter (\<lambda>v. indicator v = ''order_block'') (drop n vs)) =
           (if orderBlockProbability psy > 0.6 then 1 else 0) \<and>
         length (filter (\<lambda>v. indicator v = ''fvg_signal'') (drop n vs)) =
           (if fvgDetected psy then 1 else 0) \<and>
         length (filter (\<lambda>v. indicator v = ''wick_rejection'' \<and> vote_direction v = DOWN)
                   (drop n vs)) =
           (if upperWickRatio psy > 0.6 then 1 else 0) \<and>
         length (filter (\<lambda>v. indicator v = ''wick_rejection'' \<and> vote_direction v = UP)
                   (drop n vs)) =
           (if lowerWickRatio psy > 0.6 then 1 else 0) \<and>
         length (filter (\<lambda>v. indicator v \<notin> {''order_block'', ''fvg_signal'', ''wick_rejection''})
                   (drop n vs)) = 0"
proof -
  have t: "take n vs = map patternVote (patterns psy)"
    by (simp add: vs_def n_def voteFromPsychology_parts)
  have d: "drop n vs = drop n (map patternVote (patterns psy)) @
     (if orderBlockProbability psy > 0.6 then
        [\<lparr>indicator = ''order_block'',
          vote_direction =
            (if bias psy = bullish then UP else if bias psy = bearish then DOWN else NEUTRAL),
          weight = orderBlockProbability psy, reason = Some [Lit ''Order block detected'']\<rparr>]
      else []) @
     (if fvgDetected psy then
        [\<lparr>indicator = ''fvg_signal'',
          vote_direction = (if bias psy = bullish then UP else DOWN),
          weight = 0.8, reason = Some [Lit ''Fair Value Gap detected'']\<rparr>]
      else []) @
     (if upperWickRatio psy > 0.6 then
        [\<lparr>indicator = ''wick_rejection'', vote_direction = DOWN,
          weight = upperWickRatio psy, reason = Some [Lit ''Upper wick rejection'']\<rparr>]
      else []) @
     (if lowerWickRatio psy > 0.6 then
        [\<lparr>indicator = ''wick_rejection'', vote_direction = UP,
          weight = lowerWickRatio psy, reason = Some [Lit ''Lower wick rejection'']\<rparr>]
      else [])"
    by (simp add: vs_def n_def voteFromPsychology_parts)
  show ?thesis
    unfolding t d
    by (simp add: n_def patternVote_direction patternVote_weight comp_def)
qed

theorem psychology_votes_witness:
  "map vote_direction (take 2 (voteFromPsychology hammer_psychology)) = [UP, NEUTRAL] \<and>
   map weight (take 2 (voteFromPsychology hammer_psychology)) = [0.7, 0.4] \<and>
   length (filter (\<lambda>v. indicator v = ''order_block'')
             (drop 2 (voteFromPsychology hammer_psychology))) = 1 \<and>
   length (filter (\<lambda>v. indicator v = ''fvg_signal'')
             (drop 2 (voteFromPsychology hammer_psychology))) = 1 \<and>
   length (filter (\<lambda>v. indicator v = ''wick_rejection'' \<and> vote_direction v = DOWN)
             (drop 2 (voteFromPsychology hammer_psychology))) = 0 \<and>
   length (filter (\<lambda>v. indicator v = ''wick_rejection'' \<and> vote_direction v = UP)
             (drop 2 (voteFromPsychology hammer_psychology))) = 1"
  using psychology_votes [of hammer_psychology] hammer_votes
  by simp

text \<open>
  C10, as stated, fails: \<open>generateSignal\<close> reads the clock, and two calls on the same
  arguments one second apart differ in \<open>timestamp\<close>.
\<close>

theorem generateSignal_clock_counterexample:
  "rising_signal 0 None \<noteq> rising_signal 1000 None"
proof
  assume "rising_signal 0 None = rising_signal 1000 None"
  then have "timestamp (rising_signal 0 None) = timestamp (rising_signal 1000 None)" by simp
  then show False
    by (simp add: rising_signal_def generateSignal_def Let_def split: if_splits)
qed

text \<open>
  C10, amended. The clock enters the result only through \<open>timestamp\<close>: two calls on the
  same arguments agree in every other field, and \<open>timestamp\<close> is the clock reading in
  whole seconds.
\<close>

theorem generateSignal_clock_only_in_timestamp:
  "generateSignal P t1 sid smb tf cs fc ct opts =
     (generateSignal P t2 sid smb tf cs fc ct opts)\<lparr>timestamp := t1 div 1000\<rparr>"
  by (simp add: generateSignal_def Let_def)

subsection \<open>Session manager\<close>




text \<open>
  C8, as stated, fails: \<open>startSession\<close> never inspects the timeframe. With a new id and a
  feed that answers, a session of 180 seconds, which is not in \<open>TIMEFRAMES\<close>, is
  created.
\<close>

theorem startSession_timeframe_counterexample:
  "180 \<notin> set (map tf_value TIMEFRAMES) \<and>
   \<not> isl (fst (startSession sample_world newManager ''s1'' 1 ''R_10'' 180 None)) \<and>
   map_option session_timeframe
     (sessions (snd (startSession sample_world newManager ''s1'' 1 ''R_10'' 180 None)) ''s1'') =
   Some 180"
  using startSession_creates [of newManager "''s1''" sample_world "''R_10''" 180 "[]" 1 None]
  by (auto simp: newManager_def sample_world_def TIMEFRAMES_def)

text \<open>
  C8, amended. \<open>startSession\<close> rejects a call whose id already exists and leaves the
  manager unchanged; with a new id and a feed that answers it creates an active
  session with the requested timeframe, whatever its value. The route
  \<open>POST /api/startSession\<close> answers 400 when the timeframe is missing or zero and passes
  every other timeframe of a well-formed request on to \<open>startSession\<close>.
\<close>

theorem startSession_ignores_timeframe:
  "(sessions m sid \<noteq> None \<longrightarrow>
      startSession w m sid chat smb tf opts = (Inl (SessionExists sid), m)) \<and>
   (sessions m sid = None \<and>
    fetchCandleHistory w smb tf (historyCandles SIGNAL_CONFIG) = Inr h \<and>
    subscribeTicks w smb sid = None \<longrightarrow>
      (\<exists>s. fst (startSession w m sid chat smb tf opts) = Inr s \<and>
           sessions (snd (startSession w m sid chat smb tf opts)) sid = Some s \<and>
           session_timeframe s = tf \<and> status s = active)) \<and>
   (body_timeframe body = None \<or> body_timeframe body = Some 0 \<longrightarrow>
      postStartSession w m body = (Json_error 400 ''Missing required fields'', m)) \<and>
   (body_session_id body = Some sid \<and> sid \<noteq> [] \<and> body_chat_id body = Some chat \<and> chat \<noteq> 0 \<and>
    body_asset body = Some smb \<and> smb \<noteq> [] \<and> getAssetById smb \<noteq> None \<and>
    body_timeframe body = Some tf \<and> tf \<noteq> 0 \<longrightarrow>
      postStartSession w m body =
        (case startSession w m sid chat smb tf (body_options body) of
           (Inl e, m1) \<Rightarrow> (Json_error 500 ''Failed to start session'', m1)
         | (Inr session, m1) \<Rightarrow> (Json_session session, m1)))"
proof -
  have "sessions m sid \<noteq> None \<longrightarrow>
      startSession w m sid chat smb tf opts = (Inl (SessionExists sid), m)"
    by (simp add: startSession_rejects_existing)
  moreover have "sessions m sid = None \<and>
    fetchCandleHistory w smb tf (historyCandles SIGNAL_CONFIG) = Inr h \<and>
    subscribeTicks w smb sid = None \<longrightarrow>
      (\<exists>s. fst (startSession w m sid chat smb tf opts) = Inr s \<and>
           sessions (snd (startSession w m sid chat smb tf opts)) sid = Some s \<and>
           session_timeframe s = tf \<and> status s = active)"
    using startSession_creates [of m sid w smb tf h chat opts] by blast
  moreover have "body_timeframe body = None \<or> body_timeframe body = Some 0 \<longrightarrow>
      postStartSession w m body = (Json_error 400 ''Missing required fields'', m)"
    by (auto simp: postStartSession_def split: option.splits)
  moreover have "body_session_id body = Some sid \<and> sid \<noteq> [] \<and> body_chat_id body = Some chat \<and>
    chat \<noteq> 0 \<and> body_asset body = Some smb \<and> smb \<noteq> [] \<and> getAssetById smb \<noteq> None \<and>
    body_timeframe body = Some tf \<and> tf \<noteq> 0 \<longrightarrow>
      postStartSession w m body =
        (case startSession w m sid chat smb tf (body_options body) of
           (Inl e, m1) \<Rightarrow> (Json_error 500 ''Failed to start session'', m1)
         | (Inr session, m1) \<Rightarrow> (Json_session session, m1))"
    by (auto simp: postStartSession_def split: option.splits prod.splits sum.splits)
  ultimately show ?thesis by blast
qed

theorem startSession_ignores_timeframe_witness:
  "sessions started_manager ''s1'' \<noteq> None \<and>
   startSession sample_world started_manager ''s1'' 1 ''R_10'' 180 None =
     (Inl (SessionExists ''s1''), started_manager) \<and>
   sessions newManager ''s1'' = None \<and>
   fetchCandleHistory sample_world ''R_10'' 180 (historyCandles SIGNAL_CONFIG) = Inr [] \<and>
   subscribeTicks sample_world ''R_10'' ''s1'' = None \<and>
   (\<exists>s. fst (startSession sample_world newManager ''s1'' 1 ''R_10'' 180 None) = Inr s \<and>
        sessions (snd (startSession sample_world newManager ''s1'' 1 ''R_10'' 180 None)) ''s1'' =
          Some s \<and>
        session_timeframe s = 180 \<and> status s = active) \<and>
   postStartSession sample_world newManager (odd_body\<lparr>body_timeframe := Some 0\<rparr>) =
     (Json_error 400 ''Missing required fields'', newManager) \<and>
   postStartSession sample_world newManager odd_body =
     (case startSession sample_world newManager ''s1'' 1 ''R_10'' 180 None of
        (Inl e, m1) \<Rightarrow> (Json_error 500 ''Failed to start session'', m1)
      | (Inr session, m1) \<Rightarrow> (Json_session session, m1))"
proof -
  have a: "sessions started_manager ''s1'' \<noteq> None"
    using sample_start by auto
  have b: "sessions newManager ''s1'' = None"
    "fetchCandleHistory sample_world ''R_10'' 180 (historyCandles SIGNAL_CONFIG) = Inr []"
    "subscribeTicks sample_world ''R_10'' ''s1'' = None"
    by (simp_all add: newManager_def sample_world_def)
  have c: "getAssetById ''R_10'' \<noteq> None"
    by (simp add: getAssetById_def SUPPORTED_ASSETS_def)
  have d: "body_session_id odd_body = Some ''s1''" "body_chat_id odd_body = Some 1"
    "body_asset odd_body = Some ''R_10''" "body_timeframe odd_body = Some 180"
    "body_options odd_body = None"
    by (simp_all add: odd_body_def)
  from a b c d
    startSession_ignores_timeframe [where m = started_manager and sid = "''s1''"
      and w = sample_world and chat = 1 and smb = "''R_10''" and tf = 180 and opts = None]
    startSession_ignores_timeframe [where m = newManager and sid = "''s1''"
      and w = sample_world and chat = 1 and smb = "''R_10''" and tf = 180 and opts = None
      and h = "[]" and body = odd_body]
    startSession_ignores_timeframe [where m = newManager and w = sample_world
      and body = "odd_body\<lparr>body_timeframe := Some 0\<rparr>"]
  show ?thesis by simp
qed

text \<open>
  C9, as stated, fails: after \<open>stopSession\<close> has completed the manager still holds the
  session, and \<open>startSession\<close> with the same id is rejected as already existing.
\<close>

theorem stopSession_destroys_counterexample:
  "fst (stopSession sample_world started_manager ''s1'') = None \<and>
   getSession stopped_manager ''s1'' \<noteq> None \<and>
   fst (startSession sample_world stopped_manager ''s1'' 1 ''R_10'' 60 None) =
     Inl (SessionExists ''s1'')"
proof -
  from sample_start obtain s where s: "sessions started_manager ''s1'' = Some s"
    "session_symbol s = ''R_10''" by blast
  have "unsubscribeTicks sample_world (session_symbol s) ''s1'' = None"
    by (simp add: sample_world_def)
  with stopSession_effect(1,4) [OF s(1), where w = sample_world]
  have "fst (stopSession sample_world started_manager ''s1'') = None"
    and "sessions stopped_manager ''s1'' \<noteq> None"
    by (simp_all add: stopped_manager_def)
  then show ?thesis
    by (simp add: getSession_def startSession_rejects_existing)
qed

text \<open>
  C9, amended. After \<open>stopSession(id)\<close> on an existing session the manager still holds
  the record, now with \<open>status = stopped\<close>; its tick handler is removed and its pre-close
  timeout is no longer pending; and a later \<open>startSession\<close> with the same id is
  rejected as already existing.
\<close>

theorem stopSession_keeps_record:
  assumes "sessions m sid = Some s"
  shows "getSession (snd (stopSession w m sid)) sid = Some (s\<lparr>status := stopped\<rparr>) \<and>
         tickHandlers (snd (stopSession w m sid)) sid = None \<and>
         (preCloseTimer s = Some h \<longrightarrow> timers (snd (stopSession w m sid)) h = None) \<and>
         startSession w' (snd (stopSession w m sid)) sid chat smb tf opts =
           (Inl (SessionExists sid), snd (stopSession w m sid))"
  using stopSession_effect [OF assms]
  by (simp add: getSession_def startSession_rejects_existing)

theorem stopSession_keeps_record_witness:
  "sessions started_manager ''s1'' \<noteq> None \<and>
   map_option status (getSession stopped_manager ''s1'') = Some stopped \<and>
   tickHandlers stopped_manager ''s1'' = None \<and>
   startSession sample_world stopped_manager ''s1'' 1 ''R_10'' 60 None =
     (Inl (SessionExists ''s1''), stopped_manager)"
proof -
  from sample_start obtain s where s: "sessions started_manager ''s1'' = Some s" by blast
  from stopSession_keeps_record [OF s, where w = sample_world and w' = sample_world
      and chat = 1 and smb = "''R_10''" and tf = 60 and opts = None] s
  show ?thesis by (simp add: stopped_manager_def)
qed

end
